theory Spec2Isabelle
  imports Complex_Main "HOL-Library.Word"
begin

unbundle bit_operations_syntax

section \<open>Python and NumPy primitives used by the notebooks\<close>

text \<open>
  The two notebooks (Creating the Initial Conditions, Creating the External Forcing
  Conditions) are straight-line array programs. An array is a nested list, by rank (a
  NumPy array is rectangular; a nested list with no rows does not record the length of
  its rows). NumPy's floating-point numbers are modelled by the reals (exact arithmetic:
  no rounding, no NaN, no infinities), and the 4-byte values of a file by 32-bit words;
  the cell that makes the zero-wind files works on the values of a file and is modelled
  on their bits.
  Every exception the array operations can raise is a value of \<open>py_error\<close>.
\<close>

datatype py_error = IndexError | ValueError

definition and_then :: "py_error + 'a \<Rightarrow> ('a \<Rightarrow> py_error + 'b) \<Rightarrow> py_error + 'b" where
  "and_then r f = (case r of Inl e \<Rightarrow> Inl e | Inr x \<Rightarrow> f x)"

text \<open>A loop that builds one element per iteration and stops at the first exception.\<close>

fun mapM :: "('a \<Rightarrow> py_error + 'b) \<Rightarrow> 'a list \<Rightarrow> py_error + 'b list" where
  "mapM f [] = Inr []"
| "mapM f (x # xs) =
     and_then (f x) (\<lambda>y. and_then (mapM f xs) (\<lambda>ys. Inr (y # ys)))"

text \<open>\<open>xs[i]\<close>: a negative index counts from the end, an index out of range raises.\<close>

definition py_index :: "'a list \<Rightarrow> int \<Rightarrow> py_error + 'a" where
  "py_index xs i =
     (if 0 \<le> i \<and> i < int (length xs) then Inr (xs ! nat i)
      else if i < 0 \<and> - int (length xs) \<le> i then Inr (xs ! nat (int (length xs) + i))
      else Inl IndexError)"

text \<open>\<open>a.ravel('C')\<close> of a two- and of a three-dimensional array: the last index varies fastest.\<close>

definition ravel2 :: "'a list list \<Rightarrow> 'a list" where
  "ravel2 a = concat a"

definition ravel3 :: "'a list list list \<Rightarrow> 'a list" where
  "ravel3 a = concat (map ravel2 a)"

text \<open>The shape of a (rectangular) array.\<close>

definition has_shape2 :: "nat \<Rightarrow> nat \<Rightarrow> 'a list list \<Rightarrow> bool" where
  "has_shape2 R C a = (length a = R \<and> list_all (\<lambda>row. length row = C) a)"

definition has_shape3 :: "nat \<Rightarrow> nat \<Rightarrow> nat \<Rightarrow> 'a list list list \<Rightarrow> bool" where
  "has_shape3 L R C a = (length a = L \<and> list_all (has_shape2 R C) a)"

text \<open>\<open>flat.reshape((R, C))\<close> and \<open>flat.reshape((L, R, C))\<close> in C order; a flat array of
  another size raises ValueError.\<close>

definition rows_of :: "nat \<Rightarrow> nat \<Rightarrow> 'a list \<Rightarrow> 'a list list" where
  "rows_of R C xs = map (\<lambda>r. take C (drop (r * C) xs)) [0..<R]"

definition reshape2 :: "nat \<Rightarrow> nat \<Rightarrow> 'a list \<Rightarrow> py_error + 'a list list" where
  "reshape2 R C xs = (if length xs = R * C then Inr (rows_of R C xs) else Inl ValueError)"

definition reshape3 :: "nat \<Rightarrow> nat \<Rightarrow> nat \<Rightarrow> 'a list \<Rightarrow> py_error + 'a list list list" where
  "reshape3 L R C xs =
     (if length xs = L * R * C then Inr (map (rows_of R C) (rows_of L (R * C) xs))
      else Inl ValueError)"

text \<open>\<open>a[keep]\<close> with a boolean array \<open>keep\<close>, and \<open>a[:, keep]\<close> on the columns of a
  two-dimensional array: the boolean array must be as long as the indexed axis.\<close>

definition bool_index :: "'a list \<Rightarrow> bool list \<Rightarrow> py_error + 'a list" where
  "bool_index xs keep =
     (if length keep = length xs then Inr (map fst (filter snd (zip xs keep)))
      else Inl IndexError)"

definition bool_index_cols :: "'a list list \<Rightarrow> bool list \<Rightarrow> py_error + 'a list list" where
  "bool_index_cols a keep = mapM (\<lambda>row. bool_index row keep) a"


text \<open>\<open>np.column_stack([xs, ys])\<close>: one (x, y) row per point.\<close>

definition column_stack :: "real list \<Rightarrow> real list \<Rightarrow> py_error + (real \<times> real) list" where
  "column_stack xs ys = (if length xs = length ys then Inr (zip xs ys) else Inl ValueError)"

text \<open>\<open>target[a:a+N] = xs\<close> for a slice of \<open>N\<close> elements: \<open>xs\<close> has \<open>N\<close> elements, or one
  element that is broadcast.\<close>

definition assign_slice :: "nat \<Rightarrow> real list \<Rightarrow> py_error + real list" where
  "assign_slice N xs =
     (if length xs = N then Inr xs
      else if length xs = 1 then Inr (replicate N (hd xs))
      else Inl ValueError)"

text \<open>Python's \<open>sub in s\<close> on strings.\<close>

fun starts_with :: "string \<Rightarrow> string \<Rightarrow> bool" where
  "starts_with [] s = True"
| "starts_with (c # cs) [] = False"
| "starts_with (c # cs) (d # ds) = (c = d \<and> starts_with cs ds)"

fun substring_in :: "string \<Rightarrow> string \<Rightarrow> bool" where
  "substring_in sub [] = (sub = [])"
| "substring_in sub (c # cs) = (starts_with sub (c # cs) \<or> substring_in sub cs)"

section \<open>Creating the Initial Conditions\<close>

subsection \<open>Step 3: the mask of the model grid\<close>

text \<open>
  Modelled from the spec: \<open>hFac.create_hFacC_grid(depth, delR)\<close> of the external package
  eccoseas, whose source is not in the repository. The spec describes it as "a
  mask-builder that converts a bathymetry depth array plus a vertical layer-thickness
  list into a per-level open/closed mask for the target grid": one level per entry of
  \<open>delR\<close>, each level shaped like the bathymetry. The spec gives no rule for the open
  fraction of a cell at a level; it is the parameter \<open>hFac_cell\<close> (depth of the cell, the
  layer thicknesses, the level).
\<close>

definition create_hFacC_grid ::
  "(real \<Rightarrow> real list \<Rightarrow> nat \<Rightarrow> real) \<Rightarrow> real list list \<Rightarrow> real list \<Rightarrow> real list list list" where
  "create_hFacC_grid hFac_cell depth delR =
     map (\<lambda>k. map (map (\<lambda>d. hFac_cell d delR k)) depth) [0..<length delR]"

text \<open>\<open>mask = np.copy(hFacC)\<close>; \<open>mask[mask>0] = 1\<close>\<close>

definition mask_of_hFac :: "real list list list \<Rightarrow> real list list list" where
  "mask_of_hFac hFacC = map (map (map (\<lambda>h. if h > 0 then 1 else h))) hFacC"

definition model_grid_mask ::
  "(real \<Rightarrow> real list \<Rightarrow> nat \<Rightarrow> real) \<Rightarrow> real list list \<Rightarrow> real list \<Rightarrow> real list list list" where
  "model_grid_mask hFac_cell bathy delR = mask_of_hFac (create_hFacC_grid hFac_cell bathy delR)"

subsection \<open>Step 4: the source points and the longitude filter\<close>

text \<open>
  The points of the ECCO tiles in \<open>tile_list\<close>, gathered tile after tile: the longitude and
  latitude of each point and, per vertical level (the rows), its wet mask and its three
  open fractions.
\<close>

record source_points =
  ecco_XC_points :: "real list"
  ecco_YC_points :: "real list"
  ecco_mask_points :: "real list list"
  ecco_hFacC_points :: "real list list"
  ecco_hFacW_points :: "real list list"
  ecco_hFacS_points :: "real list list"

text \<open>\<open>local_indices = ecco_XC_points<0\<close>\<close>

definition local_indices :: "real list \<Rightarrow> bool list" where
  "local_indices XC_points = map (\<lambda>x. x < 0) XC_points"

text \<open>The cell "remove the points with positive longitude": every array is indexed with
  the one boolean array, computed from the longitudes before any of them is replaced.\<close>

definition remove_positive_longitudes :: "source_points \<Rightarrow> py_error + source_points" where
  "remove_positive_longitudes p =
     (let keep = local_indices (ecco_XC_points p) in
      and_then (bool_index_cols (ecco_mask_points p) keep) (\<lambda>mask_points.
      and_then (bool_index_cols (ecco_hFacC_points p) keep) (\<lambda>hFacC_points.
      and_then (bool_index_cols (ecco_hFacW_points p) keep) (\<lambda>hFacW_points.
      and_then (bool_index_cols (ecco_hFacS_points p) keep) (\<lambda>hFacS_points.
      and_then (bool_index (ecco_YC_points p) keep) (\<lambda>YC_points.
      and_then (bool_index (ecco_XC_points p) keep) (\<lambda>XC_points.
      Inr \<lparr>ecco_XC_points = XC_points, ecco_YC_points = YC_points,
           ecco_mask_points = mask_points, ecco_hFacC_points = hFacC_points,
           ecco_hFacW_points = hFacW_points, ecco_hFacS_points = hFacS_points\<rparr>)))))))"

subsection \<open>Step 4: reading the fields of the tiles\<close>

text \<open>
  The arrays read from the NetCDF files: \<open>etan_grid\<close> is the array \<open>grid\<close> of ETAN, indexed
  [time, tile, row, column]; \<open>grid\<close> is the array \<open>grid\<close> of THETA or SALT and \<open>u_grid\<close>,
  \<open>v_grid\<close> are UVELMASS and VVELMASS, indexed [time, level, tile, row, column].
\<close>

record ecco_fields =
  etan_grid :: "real list list list list"
  grid :: "real list list list list list"
  u_grid :: "real list list list list list"
  v_grid :: "real list list list list list"

text \<open>\<open>g[0, tile_number-1, :, :].ravel()\<close> and \<open>g[0, k, tile_number-1, :, :].ravel()\<close>\<close>

definition tile_surface :: "real list list list list \<Rightarrow> int \<Rightarrow> py_error + real list" where
  "tile_surface g tile_number =
     and_then (py_index g 0) (\<lambda>g0.
     and_then (py_index g0 (tile_number - 1)) (\<lambda>tile. Inr (ravel2 tile)))"

definition tile_level :: "real list list list list list \<Rightarrow> nat \<Rightarrow> int \<Rightarrow> py_error + real list" where
  "tile_level g k tile_number =
     and_then (py_index g 0) (\<lambda>g0.
     and_then (py_index g0 (int k)) (\<lambda>gk.
     and_then (py_index gk (tile_number - 1)) (\<lambda>tile. Inr (ravel2 tile))))"

text \<open>
  What the loop over the tiles stores in \<open>init_grid[k, points_counted:points_counted+N]\<close>
  for one tile: the branches of the source, in its order. \<open>N\<close> is
  \<open>np.shape(grid)[-1]*np.shape(grid)[-2]\<close>, the number of points of a tile of the array
  last read into \<open>grid\<close>. A name that holds VEL and is neither UVEL nor VVEL leaves the
  zeros of \<open>np.zeros\<close>.
\<close>

definition tile_values :: "string \<Rightarrow> ecco_fields \<Rightarrow> nat \<Rightarrow> nat \<Rightarrow> int \<Rightarrow> py_error + real list" where
  "tile_values variable_name f N k tile_number =
     (if variable_name = ''ETAN'' then
        and_then (tile_surface (etan_grid f) tile_number) (assign_slice N)
      else if substring_in ''VEL'' variable_name then
        (if variable_name = ''UVEL'' then
           (if tile_number < 7 then
              and_then (tile_level (u_grid f) k tile_number) (assign_slice N)
            else
              and_then (tile_level (v_grid f) k tile_number) (assign_slice N))
         else if variable_name = ''VVEL'' then
           (if tile_number < 7 then
              and_then (tile_level (v_grid f) k tile_number) (assign_slice N)
            else
              and_then (tile_level (u_grid f) k tile_number)
                (\<lambda>xs. assign_slice N (map (\<lambda>x. -1 * x) xs)))
         else Inr (replicate N 0))
      else
        and_then (tile_level (grid f) k tile_number) (assign_slice N))"

text \<open>\<open>init_grid\<close> before the longitude filter: one row for ETAN, \<open>nlev\<close> rows
  (\<open>np.size(ecco_RF_tiles[1])\<close>) otherwise, each row the tiles of \<open>tile_list\<close> side by side.\<close>

definition read_init_grid ::
  "string \<Rightarrow> ecco_fields \<Rightarrow> nat \<Rightarrow> nat \<Rightarrow> int list \<Rightarrow> py_error + real list list" where
  "read_init_grid variable_name f nlev N tile_list =
     mapM (\<lambda>k. and_then (mapM (tile_values variable_name f N k) tile_list)
                  (\<lambda>parts. Inr (concat parts)))
          [0..<(if variable_name = ''ETAN'' then 1 else nlev)]"

subsection \<open>Step 4: the corrections of the velocities\<close>

text \<open>
  \<open>non_zero_indices = hFac[k,:]!=0\<close>;
  \<open>init_grid[k,non_zero_indices] = init_grid[k,non_zero_indices]/hFac[k,non_zero_indices]\<close>
\<close>

definition divide_nonzero :: "real list \<Rightarrow> real list \<Rightarrow> py_error + real list" where
  "divide_nonzero row hFac =
     (if length hFac = length row
      then Inr (map (\<lambda>(v, f). if f \<noteq> 0 then v / f else v) (zip row hFac))
      else Inl IndexError)"

definition normalize_levels :: "nat \<Rightarrow> real list list \<Rightarrow> real list list \<Rightarrow> py_error + real list list" where
  "normalize_levels nlev init_grid hFac =
     (if nlev \<le> length init_grid \<and> nlev \<le> length hFac then
        and_then (mapM (\<lambda>k. divide_nonzero (init_grid ! k) (hFac ! k)) [0..<nlev])
          (\<lambda>rows. Inr (rows @ drop nlev init_grid))
      else Inl IndexError)"

definition apply_corrections ::
  "string \<Rightarrow> nat \<Rightarrow> source_points \<Rightarrow> real list list \<Rightarrow> py_error + real list list" where
  "apply_corrections variable_name nlev p init_grid =
     (if variable_name = ''UVEL'' then normalize_levels nlev init_grid (ecco_hFacW_points p)
      else if variable_name = ''VVEL'' then normalize_levels nlev init_grid (ecco_hFacS_points p)
      else Inr init_grid)"

text \<open>\<open>init_grid = init_grid[:,local_indices]\<close>, with \<open>local_indices\<close> as computed from the
  longitudes \<open>p\<close> of all points.\<close>

definition filtered_init_grid ::
  "string \<Rightarrow> ecco_fields \<Rightarrow> nat \<Rightarrow> nat \<Rightarrow> int list \<Rightarrow> source_points
   \<Rightarrow> py_error + real list list" where
  "filtered_init_grid variable_name f nlev N tile_list p =
     and_then (read_init_grid variable_name f nlev N tile_list) (\<lambda>init_grid.
     bool_index_cols init_grid (local_indices (ecco_XC_points p)))"

text \<open>The whole cell for one variable: read the tiles, keep the columns of
  \<open>local_indices\<close>, correct the velocities. \<open>p\<close> holds the points before the filter and
  \<open>p'\<close> the points after it.\<close>

definition prepare_init_grid ::
  "string \<Rightarrow> ecco_fields \<Rightarrow> nat \<Rightarrow> nat \<Rightarrow> int list \<Rightarrow> source_points \<Rightarrow> source_points
   \<Rightarrow> py_error + real list list" where
  "prepare_init_grid variable_name f nlev N tile_list p p' =
     and_then (filtered_init_grid variable_name f nlev N tile_list p)
       (apply_corrections variable_name nlev p')"

subsection \<open>Step 5: the masked horizontal interpolator\<close>

type_synonym point = "real \<times> real"

type_synonym interp_kernel = "(point \<times> real) list \<Rightarrow> point \<Rightarrow> real option"

text \<open>
  Modelled from the spec: step 1 of the interpolator of the external package eccoseas
  (module \<open>horizontal\<close>, not in the repository), "restrict to the subset of source points
  whose mask is true at this level". The notebooks pass masks of zeros and ones: a mask
  entry is true when it is not zero.
\<close>

definition valid_subset :: "point list \<Rightarrow> real list \<Rightarrow> real list \<Rightarrow> (point \<times> real) list" where
  "valid_subset source_coords source_values source_mask =
     map (\<lambda>(xy, v, m). (xy, v))
       (filter (\<lambda>(xy, v, m). m \<noteq> 0) (zip source_coords (zip source_values source_mask)))"

text \<open>
  Modelled from the spec: the fallback of step 3 of the interpolator, "assign the value of
  the nearest valid source point (nearest by planar distance in longitude/latitude)".
  Distances are compared by their squares; of two points at the same distance the one
  listed first is taken (the spec does not say).
\<close>

definition planar_distance2 :: "point \<Rightarrow> point \<Rightarrow> real" where
  "planar_distance2 a b = (fst a - fst b)\<^sup>2 + (snd a - snd b)\<^sup>2"

fun nearest_valid :: "(point \<times> real) list \<Rightarrow> point \<Rightarrow> real" where
  "nearest_valid [] xy = 0"
| "nearest_valid [(s, v)] xy = v"
| "nearest_valid ((s, v) # (s', v') # rest) xy =
     (if list_all (\<lambda>(q, w). planar_distance2 s xy \<le> planar_distance2 q xy) ((s', v') # rest)
      then v else nearest_valid ((s', v') # rest) xy)"

text \<open>
  Modelled from the spec: the value of one target cell, steps 1 to 4 of the interpolator:
  the fill value 0 where no source point is valid, the kernel's value (the spec leaves
  the kernel open: "a pure function of the valid subset and the target coordinate") or,
  where the kernel has none, the nearest valid point's; and "target cells whose mask is
  false are always set to exactly 0, regardless of any interpolation result".
\<close>

definition interpolate_cell :: "interp_kernel \<Rightarrow> (point \<times> real) list \<Rightarrow> point \<Rightarrow> real \<Rightarrow> real" where
  "interpolate_cell kern valid xy target_mask =
     (let interpolated =
        (if valid = [] then 0
         else case kern valid xy of Some v \<Rightarrow> v | None \<Rightarrow> nearest_valid valid xy)
      in if target_mask = 0 then 0 else interpolated)"

text \<open>
  Modelled from the spec: the contract \<open>interpolate(source_coords, source_values,
  source_mask, target_coords, target_mask)\<close> at one vertical level, the target grid given
  by its two coordinate arrays. "Shape mismatches between coordinate arrays and
  value/mask arrays: fatal, detected before interpolation begins."
\<close>

definition interpolate_level ::
  "interp_kernel \<Rightarrow> point list \<Rightarrow> real list \<Rightarrow> real list \<Rightarrow> real list list \<Rightarrow> real list list
   \<Rightarrow> real list list \<Rightarrow> py_error + real list list" where
  "interpolate_level kern source_coords source_values source_mask XC YC target_mask =
     (if length source_values = length source_coords
         \<and> length source_mask = length source_coords
         \<and> map length YC = map length XC \<and> map length target_mask = map length XC
      then Inr (map (\<lambda>(xs, ys, ms).
                  map (\<lambda>(x, y, m).
                         interpolate_cell kern
                           (valid_subset source_coords source_values source_mask) (x, y) m)
                      (zip xs (zip ys ms)))
                (zip XC (zip YC target_mask)))
      else Inl ValueError)"

text \<open>
  Modelled from the spec: \<open>horizontal.downscale_2D_points_with_zeros\<close> of the external
  package eccoseas, the "companion zero-aware variant" for one level: "cells outside the
  target mask are zeroed after interpolation".
\<close>

definition downscale_2D_points_with_zeros ::
  "interp_kernel \<Rightarrow> point list \<Rightarrow> real list \<Rightarrow> real list \<Rightarrow> real list list \<Rightarrow> real list list
   \<Rightarrow> real list list \<Rightarrow> py_error + real list list" where
  "downscale_2D_points_with_zeros kern points values2 mask2 XC YC wet_grid =
     interpolate_level kern points values2 mask2 XC YC wet_grid"

text \<open>
  Modelled from the spec: \<open>horizontal.downscale_3D_points\<close> of the external package
  eccoseas: the algorithm runs "per vertical level, independently", and the output has
  the levels of the target mask ("for each vertical level, M interpolated scalar
  values"). Level \<open>k\<close> of the output is interpolated from row \<open>k\<close> of the source values and
  of the source mask; a row that does not exist raises.
\<close>

definition downscale_3D_points ::
  "interp_kernel \<Rightarrow> point list \<Rightarrow> real list list \<Rightarrow> real list list \<Rightarrow> real list list \<Rightarrow> real list list
   \<Rightarrow> real list list list \<Rightarrow> py_error + real list list list" where
  "downscale_3D_points kern points values3 mask3 XC YC wet_grid =
     mapM (\<lambda>k. and_then (py_index values3 (int k)) (\<lambda>level_values.
                and_then (py_index mask3 (int k)) (\<lambda>level_mask.
                interpolate_level kern points level_values level_mask XC YC (wet_grid ! k))))
          [0..<length wet_grid]"

text \<open>The cell of step 5, up to the array that is written: \<open>model_mask = mask[:1,:,:]\<close>
  for ETAN and \<open>mask\<close> otherwise.\<close>

definition model_mask :: "string \<Rightarrow> real list list list \<Rightarrow> real list list list" where
  "model_mask variable_name mask3d = (if variable_name = ''ETAN'' then take 1 mask3d else mask3d)"

definition interpolate_variable ::
  "interp_kernel \<Rightarrow> string \<Rightarrow> source_points \<Rightarrow> real list list \<Rightarrow> real list list \<Rightarrow> real list list
   \<Rightarrow> real list list list \<Rightarrow> py_error + real list list list" where
  "interpolate_variable kern variable_name p' init_grid XC YC mask3d =
     and_then (column_stack (ecco_XC_points p') (ecco_YC_points p')) (\<lambda>points.
     downscale_3D_points kern points init_grid (ecco_mask_points p') XC YC
       (model_mask variable_name mask3d))"

section \<open>The binary files\<close>

text \<open>
  A file is its list of bytes. \<open>astype('>f4')\<close> rounds each number to a binary32 value;
  the rounding \<open>enc\<close> (a number to the 32 bits of its binary32 value) and the value \<open>dec\<close>
  of 32 bits are IEEE 754's and are parameters here. A number is float32-representable
  when \<open>dec (enc x) = x\<close>.
\<close>

type_synonym float32 = "32 word"

type_synonym byte = "8 word"

definition astype_f4 :: "(real \<Rightarrow> float32) \<Rightarrow> real list \<Rightarrow> float32 list" where
  "astype_f4 enc xs = map enc xs"

text \<open>The four bytes of a big-endian value, the most significant first, and back.\<close>

definition be_bytes :: "float32 \<Rightarrow> byte list" where
  "be_bytes w = [ucast (drop_bit 24 w), ucast (drop_bit 16 w), ucast (drop_bit 8 w), ucast w]"

definition be_word :: "byte \<Rightarrow> byte \<Rightarrow> byte \<Rightarrow> byte \<Rightarrow> float32" where
  "be_word b0 b1 b2 b3 =
     push_bit 24 (ucast b0) OR push_bit 16 (ucast b1) OR push_bit 8 (ucast b2) OR ucast b3"

text \<open>\<open>a.tofile(path)\<close> of a flat big-endian array: the values one after the other, nothing
  before, between or after them.\<close>

definition tofile :: "float32 list \<Rightarrow> byte list" where
  "tofile ws = concat (map be_bytes ws)"

text \<open>\<open>np.fromfile(path, '>f4')\<close>: the whole 4-byte items of the file.\<close>

fun fromfile :: "byte list \<Rightarrow> float32 list" where
  "fromfile (b0 # b1 # b2 # b3 # rest) = be_word b0 b1 b2 b3 # fromfile rest"
| "fromfile rest = []"

text \<open>\<open>interpolated_grid.ravel('C').astype('>f4').tofile(output_file)\<close>, the one way both
  notebooks write a field.\<close>

definition write_field :: "(real \<Rightarrow> float32) \<Rightarrow> real list list list \<Rightarrow> byte list" where
  "write_field enc interpolated_grid = tofile (astype_f4 enc (ravel3 interpolated_grid))"

text \<open>Step 6 of the initial conditions reads a file back:
  \<open>np.fromfile(..., '>f4')\<close>, then \<open>reshape((rows, cols))\<close> for ETAN and
  \<open>reshape((np.shape(delR)[0], rows, cols))\<close> otherwise.\<close>

definition read_surface_field :: "nat \<Rightarrow> nat \<Rightarrow> byte list \<Rightarrow> py_error + float32 list list" where
  "read_surface_field rows cols file = reshape2 rows cols (fromfile file)"

definition read_field :: "nat \<Rightarrow> nat \<Rightarrow> nat \<Rightarrow> byte list \<Rightarrow> py_error + float32 list list list" where
  "read_field levels rows cols file = reshape3 levels rows cols (fromfile file)"

text \<open>The file \<open>variable_name+'_IC.bin'\<close> of one variable, from the gathered points and
  the arrays of the NetCDF files.\<close>

definition initial_condition_file ::
  "interp_kernel \<Rightarrow> (real \<Rightarrow> float32) \<Rightarrow> string \<Rightarrow> ecco_fields \<Rightarrow> nat \<Rightarrow> nat \<Rightarrow> int list
   \<Rightarrow> source_points \<Rightarrow> real list list \<Rightarrow> real list list \<Rightarrow> real list list list
   \<Rightarrow> py_error + byte list" where
  "initial_condition_file kern enc variable_name f nlev N tile_list p XC YC mask3d =
     and_then (remove_positive_longitudes p) (\<lambda>p'.
     and_then (prepare_init_grid variable_name f nlev N tile_list p p') (\<lambda>init_grid.
     and_then (interpolate_variable kern variable_name p' init_grid XC YC mask3d)
       (\<lambda>interpolated_grid. Inr (write_field enc interpolated_grid))))"

section \<open>Creating the External Forcing Conditions\<close>

text \<open>\<open>np.meshgrid(exf_lon, exf_lat)\<close>, and the source points and their mask of ones:
  \<open>ecco_points = np.column_stack([Exf_Lon.ravel(), Exf_Lat.ravel()])\<close>,
  \<open>ecco_mask = np.ones((np.size(Exf_Lon),))\<close>.\<close>

definition meshgrid :: "real list \<Rightarrow> real list \<Rightarrow> real list list \<times> real list list" where
  "meshgrid xs ys = (map (\<lambda>y. xs) ys, map (\<lambda>y. map (\<lambda>x. y) xs) ys)"

definition exf_points :: "real list \<Rightarrow> real list \<Rightarrow> py_error + point list" where
  "exf_points exf_lon exf_lat =
     (case meshgrid exf_lon exf_lat of
        (Exf_Lon, Exf_Lat) \<Rightarrow> column_stack (ravel2 Exf_Lon) (ravel2 Exf_Lat))"

definition exf_mask :: "real list \<Rightarrow> real list \<Rightarrow> real list" where
  "exf_mask exf_lon exf_lat = replicate (length (ravel2 (fst (meshgrid exf_lon exf_lat)))) 1"

text \<open>\<open>interpolated_grid[timestep,:,:] = interp_timestep\<close>: the slot has the shape of
  \<open>XC\<close>; a result of that shape is stored as it is, an axis of length one is broadcast.\<close>

definition n_columns :: "'a list list \<Rightarrow> nat" where
  "n_columns a = (case a of [] \<Rightarrow> 0 | row # rest \<Rightarrow> length row)"

definition store_timestep :: "nat \<Rightarrow> nat \<Rightarrow> real list list \<Rightarrow> py_error + real list list" where
  "store_timestep R C interp_timestep =
     and_then (mapM (assign_slice C) interp_timestep) (\<lambda>rows.
       if length rows = R then Inr rows
       else if length rows = 1 then Inr (replicate R (hd rows))
       else Inl ValueError)"

text \<open>
  The loop over the timesteps. The interpolation routine is the parameter \<open>interp\<close>
  (called with the points, the values of the timestep, the source mask, \<open>XC\<close>, \<open>YC\<close> and
  the surface mask); the notebook calls \<open>horizontal.downscale_2D_points_with_zeros\<close>.
\<close>

type_synonym interp2 =
  "point list \<Rightarrow> real list \<Rightarrow> real list \<Rightarrow> real list list \<Rightarrow> real list list \<Rightarrow> real list list
   \<Rightarrow> py_error + real list list"

definition interpolate_timesteps ::
  "interp2 \<Rightarrow> point list \<Rightarrow> real list \<Rightarrow> real list list \<Rightarrow> real list list \<Rightarrow> real list list
   \<Rightarrow> real list list list \<Rightarrow> py_error + real list list list" where
  "interpolate_timesteps interp ecco_points ecco_mask XC YC surface_mask exf_grid =
     mapM (\<lambda>field.
             and_then (interp ecco_points (ravel2 field) ecco_mask XC YC surface_mask)
               (store_timestep (length XC) (n_columns XC)))
          exf_grid"

text \<open>"convert ECCO values to MITgcm defaults": \<open>interpolated_grid += 273.15\<close> for ATEMP,
  \<open>interpolated_grid *=-1\<close> for SWDOWN and LWDOWN.\<close>

definition convert_units :: "string \<Rightarrow> real list list list \<Rightarrow> real list list list" where
  "convert_units variable_name interpolated_grid =
     (let grid1 = (if variable_name = ''ATEMP''
                   then map (map (map (\<lambda>x. x + 273.15))) interpolated_grid
                   else interpolated_grid)
      in if variable_name \<in> set [''SWDOWN'', ''LWDOWN'']
         then map (map (map (\<lambda>x. x * -1))) grid1
         else grid1)"

text \<open>The array that is written for one variable, and its file
  \<open>variable_name+'_'+str(year)\<close>.\<close>

definition forcing_grid ::
  "interp2 \<Rightarrow> string \<Rightarrow> point list \<Rightarrow> real list \<Rightarrow> real list list \<Rightarrow> real list list
   \<Rightarrow> real list list \<Rightarrow> real list list list \<Rightarrow> py_error + real list list list" where
  "forcing_grid interp variable_name ecco_points ecco_mask XC YC surface_mask exf_grid =
     and_then (interpolate_timesteps interp ecco_points ecco_mask XC YC surface_mask exf_grid)
       (\<lambda>interpolated_grid. Inr (convert_units variable_name interpolated_grid))"

definition forcing_file ::
  "interp2 \<Rightarrow> (real \<Rightarrow> float32) \<Rightarrow> string \<Rightarrow> point list \<Rightarrow> real list \<Rightarrow> real list list
   \<Rightarrow> real list list \<Rightarrow> real list list \<Rightarrow> real list list list \<Rightarrow> py_error + byte list" where
  "forcing_file interp enc variable_name ecco_points ecco_mask XC YC surface_mask exf_grid =
     and_then (forcing_grid interp variable_name ecco_points ecco_mask XC YC surface_mask exf_grid)
       (\<lambda>interpolated_grid. Inr (write_field enc interpolated_grid))"

text \<open>The cell of step 4 for one variable, from the longitudes, the latitudes and the
  values read by \<open>exf.read_ecco_exf_file\<close>.\<close>

definition create_forcing_file ::
  "interp2 \<Rightarrow> (real \<Rightarrow> float32) \<Rightarrow> string \<Rightarrow> real list \<Rightarrow> real list \<Rightarrow> real list list
   \<Rightarrow> real list list \<Rightarrow> real list list \<Rightarrow> real list list list \<Rightarrow> py_error + byte list" where
  "create_forcing_file interp enc variable_name exf_lon exf_lat XC YC surface_mask exf_grid =
     and_then (exf_points exf_lon exf_lat) (\<lambda>ecco_points.
       forcing_file interp enc variable_name ecco_points (exf_mask exf_lon exf_lat)
         XC YC surface_mask exf_grid)"

text \<open>
  The values of a wind file are binary32 bit patterns: the sign bit, eight exponent bits
  and 23 fraction bits. A value is finite when its exponent bits are not all ones, a NaN
  when they are all ones and the fraction is not zero, and a zero (+0 or -0) when all
  bits but the sign are zero.
\<close>

definition f32_is_finite :: "float32 \<Rightarrow> bool" where
  "f32_is_finite w = (w AND 0x7F800000 \<noteq> 0x7F800000)"



text \<open>
  The float32 product of a value and 0 (\<open>u_grid*=0\<close> on an array of dtype \<open>>f4\<close>), by IEEE
  754: for a finite value it is the zero with the sign of the value; for an infinity and
  for a NaN it is a NaN (written here as the value with its exponent and quiet bits set;
  hardware differs in the sign of the NaN it returns for an infinity, which nothing below
  uses).
\<close>

definition f32_times_zero :: "float32 \<Rightarrow> float32" where
  "f32_times_zero w = (if f32_is_finite w then w AND 0x80000000 else w OR 0x7FC00000)"

text \<open>
  "make a zero zonal wind file" (and the meridional one): the wind file is read as a flat
  array of big-endian float32 values, the array is multiplied by 0 in place and written;
  \<open>ravel('C')\<close> and \<open>astype('>f4')\<close> leave a flat \<open>>f4\<close> array as it is.
\<close>

definition zero_wind_grid :: "byte list \<Rightarrow> float32 list" where
  "zero_wind_grid wind_file = map f32_times_zero (fromfile wind_file)"

definition zero_wind_file :: "byte list \<Rightarrow> byte list" where
  "zero_wind_file wind_file = tofile (zero_wind_grid wind_file)"

section \<open>Lemmas about the primitives and the cells\<close>

subsection \<open>Loops and corrections\<close>

lemma and_then_Inr_iff:
  "and_then r f = Inr y \<longleftrightarrow> (\<exists>x. r = Inr x \<and> f x = Inr y)"
  by (cases r) (simp_all add: and_then_def)

lemma mapM_Inr_length: "mapM f xs = Inr ys \<Longrightarrow> length ys = length xs"
  by (induction xs arbitrary: ys) (auto simp: and_then_Inr_iff)

lemma mapM_Inr_nth:
  "mapM f xs = Inr ys \<Longrightarrow> i < length xs \<Longrightarrow> f (xs ! i) = Inr (ys ! i)"
proof (induction xs arbitrary: ys i)
  case Nil
  then show ?case by simp
next
  case (Cons x xs)
  from Cons.prems(1) obtain y zs where
    y: "f x = Inr y" and zs: "mapM f xs = Inr zs" and ys: "ys = y # zs"
    by (auto simp: and_then_Inr_iff)
  show ?case
  proof (cases i)
    case 0
    then show ?thesis by (simp add: y ys)
  next
    case (Suc j)
    with Cons.prems(2) have "j < length xs" by simp
    from Cons.IH [OF zs this] show ?thesis by (simp add: Suc ys)
  qed
qed

lemma divide_nonzero_nth:
  assumes "divide_nonzero row hFac = Inr out" and "i < length row"
  shows "out ! i = (if hFac ! i \<noteq> 0 then row ! i / hFac ! i else row ! i)"
  using assms by (auto simp: divide_nonzero_def split: if_splits)

lemma normalize_levels_nth:
  assumes "normalize_levels nlev init_grid hFac = Inr out"
    and "k < nlev" and "i < length (init_grid ! k)"
  shows "out ! k ! i =
         (if hFac ! k ! i \<noteq> 0 then init_grid ! k ! i / hFac ! k ! i else init_grid ! k ! i)"
proof -
  from assms(1) obtain rows where
    rows: "mapM (\<lambda>k. divide_nonzero (init_grid ! k) (hFac ! k)) [0..<nlev] = Inr rows"
    and out: "out = rows @ drop nlev init_grid"
    by (auto simp: normalize_levels_def and_then_Inr_iff split: if_splits)
  have len: "length rows = nlev"
    using mapM_Inr_length [OF rows] by simp
  have "divide_nonzero (init_grid ! k) (hFac ! k) = Inr (rows ! k)"
    using mapM_Inr_nth [OF rows, of k] assms(2) by simp
  from divide_nonzero_nth [OF this assms(3)] show ?thesis
    using assms(2) by (simp add: out len nth_append)
qed

lemma mapM_Inr_all:
  assumes "mapM f xs = Inr ys" and "\<And>x y. f x = Inr y \<Longrightarrow> P y"
  shows "list_all P ys"
  using assms(1)
proof (induction xs arbitrary: ys)
  case Nil
  then show ?case by simp
next
  case (Cons x xs)
  then show ?case by (auto simp: and_then_Inr_iff assms(2))
qed

lemma mapM_map: "mapM (\<lambda>x. Inr (g x)) xs = Inr (map g xs)"
  by (induction xs) (simp_all add: and_then_def)

subsection \<open>Blocks of a concatenation\<close>

lemma length_concat_block:
  "list_all (\<lambda>row. length row = C) a \<Longrightarrow> length (concat a) = length a * C"
  by (induction a) simp_all

lemma take_drop_concat_block:
  assumes "list_all (\<lambda>row. length row = C) a" and "r < length a"
  shows "take C (drop (r * C) (concat a)) = a ! r"
  using assms
proof (induction a arbitrary: r)
  case Nil
  then show ?case by simp
next
  case (Cons x xs)
  then have lx: "length x = C" and rest: "list_all (\<lambda>row. length row = C) xs"
    by simp_all
  show ?case
  proof (cases r)
    case 0
    then show ?thesis by (simp add: lx)
  next
    case (Suc q)
    with Cons.prems(2) have q: "q < length xs" by simp
    have "drop (Suc q * C) (concat (x # xs)) = drop (q * C) (concat xs)"
      by (simp add: lx)
    then show ?thesis
      using Cons.IH [OF rest q] by (simp add: Suc)
  qed
qed

lemma nth_concat_block:
  assumes "list_all (\<lambda>row. length row = C) a" and "r < length a" and "c < C"
  shows "concat a ! (r * C + c) = a ! r ! c"
proof -
  have "r * C + c < length (concat a)"
  proof -
    have "r * C + c < r * C + C" using assms(3) by simp
    also have "\<dots> = Suc r * C" by simp
    also have "\<dots> \<le> length a * C" using assms(2) by (intro mult_le_mono1) simp
    finally show ?thesis by (simp add: length_concat_block [OF assms(1)])
  qed
  then have "take C (drop (r * C) (concat a)) ! c = concat a ! (r * C + c)"
    using assms(3) by simp
  then show ?thesis
    by (simp add: take_drop_concat_block [OF assms(1,2)])
qed

lemma rows_of_concat:
  assumes "has_shape2 R C a"
  shows "rows_of R C (concat a) = a"
proof (rule nth_equalityI)
  show "length (rows_of R C (concat a)) = length a"
    using assms by (simp add: rows_of_def has_shape2_def)
next
  fix r assume "r < length (rows_of R C (concat a))"
  then have r: "r < R" by (simp add: rows_of_def)
  then show "rows_of R C (concat a) ! r = a ! r"
    using assms take_drop_concat_block [of C a r]
    by (simp add: rows_of_def has_shape2_def)
qed

lemma has_shape3_ravel_rows:
  assumes "has_shape3 L R C a"
  shows "has_shape2 L (R * C) (map ravel2 a)"
proof -
  have "list_all (\<lambda>lev. length (ravel2 lev) = R * C) a"
    using assms
    by (auto simp: has_shape3_def has_shape2_def ravel2_def list_all_iff
             intro!: length_concat_block [where C = C, simplified list_all_iff])
  then show ?thesis
    using assms by (simp add: has_shape2_def has_shape3_def list_all_iff)
qed

lemma length_ravel3:
  assumes "has_shape3 L R C a"
  shows "length (ravel3 a) = L * R * C"
  using has_shape3_ravel_rows [OF assms]
        length_concat_block [of "R * C" "map ravel2 a"]
  by (simp add: ravel3_def has_shape2_def)

lemma nth_ravel3:
  assumes "has_shape3 L R C a" and "k < L" and "r < R" and "c < C"
  shows "ravel3 a ! ((k * R + r) * C + c) = a ! k ! r ! c"
proof -
  have rows: "has_shape2 L (R * C) (map ravel2 a)"
    by (rule has_shape3_ravel_rows [OF assms(1)])
  have lev: "has_shape2 R C (a ! k)"
    using assms(1,2) by (simp add: has_shape3_def list_all_length)
  have "r * C + c < R * C"
  proof -
    have "r * C + c < Suc r * C" using assms(4) by simp
    also have "\<dots> \<le> R * C" using assms(3) by (intro mult_le_mono1) simp
    finally show ?thesis .
  qed
  then have "concat (map ravel2 a) ! (k * (R * C) + (r * C + c)) = map ravel2 a ! k ! (r * C + c)"
    using rows assms(2) by (intro nth_concat_block) (simp_all add: has_shape2_def)
  also have "\<dots> = concat (a ! k) ! (r * C + c)"
    using assms(1,2) by (simp add: has_shape3_def ravel2_def)
  also have "\<dots> = a ! k ! r ! c"
    using lev assms(3,4) by (intro nth_concat_block) (simp_all add: has_shape2_def)
  finally show ?thesis
    by (simp add: ravel3_def algebra_simps)
qed

lemma reshape3_ravel3:
  assumes "has_shape3 L R C a"
  shows "reshape3 L R C (ravel3 a) = Inr a"
proof -
  have "rows_of L (R * C) (ravel3 a) = map ravel2 a"
    unfolding ravel3_def by (rule rows_of_concat [OF has_shape3_ravel_rows [OF assms]])
  moreover have "map (rows_of R C) (map ravel2 a) = a"
    using assms
    by (auto simp: has_shape3_def list_all_iff ravel2_def rows_of_concat intro!: map_idI)
  ultimately show ?thesis
    by (simp add: reshape3_def length_ravel3 [OF assms])
qed

lemma reshape2_ravel2:
  assumes "has_shape2 R C a"
  shows "reshape2 R C (ravel2 a) = Inr a"
  using assms length_concat_block [of C a]
  by (simp add: reshape2_def ravel2_def rows_of_concat has_shape2_def)

subsection \<open>Bytes\<close>

lemma be_word_be_bytes:
  "be_word (ucast (drop_bit 24 w)) (ucast (drop_bit 16 w)) (ucast (drop_bit 8 w)) (ucast w) = w"
  unfolding be_word_def
proof (rule bit_word_eqI)
  fix n :: nat
  assume n: "n < LENGTH(32)"
  consider "n < 8" | "8 \<le> n" "n < 16" | "16 \<le> n" "n < 24" | "24 \<le> n" "n < 32"
    using n by fastforce
  then show "bit (push_bit 24 (ucast (ucast (drop_bit 24 w) :: byte)) OR
                  push_bit 16 (ucast (ucast (drop_bit 16 w) :: byte)) OR
                  push_bit 8 (ucast (ucast (drop_bit 8 w) :: byte)) OR
                  (ucast (ucast w :: byte) :: float32)) n = bit w n"
    by cases (auto simp: bit_simps)
qed

lemma split_base_256:
  fixes n :: nat
  shows "n = (n div 16777216) * 16777216 + (n div 65536 mod 256) * 65536
             + (n div 256 mod 256) * 256 + n mod 256"
proof -
  define q1 q2 q3 where "q1 = n div 256" and "q2 = n div 65536" and "q3 = n div 16777216"
  have q2: "q2 = q1 div 256" and q3: "q3 = q2 div 256"
    by (simp_all add: q1_def q2_def q3_def div_mult2_eq [symmetric])
  have a: "n = q1 * 256 + n mod 256" by (simp add: q1_def)
  have b: "q1 = q2 * 256 + q1 mod 256" by (simp add: q2)
  have c: "q2 = q3 * 256 + q2 mod 256" by (simp add: q3)
  have "n = q3 * 16777216 + (q2 mod 256) * 65536 + (q1 mod 256) * 256 + n mod 256"
    using a b c by linarith
  then show ?thesis by (simp add: q1_def q2_def q3_def)
qed

lemma unat_byte_of_word:
  "unat (ucast (drop_bit k (w :: float32)) :: byte) = unat w div 2 ^ k mod 256"
proof -
  have "unat (ucast (drop_bit k w) :: byte) = take_bit 8 (unat (drop_bit k w))"
    by (simp add: unsigned_ucast_eq)
  also have "\<dots> = take_bit 8 (drop_bit k (unat w))"
    by (simp only: unat_drop_bit_eq)
  also have "\<dots> = unat w div 2 ^ k mod 256"
    by (simp only: take_bit_eq_mod drop_bit_eq_div) simp
  finally show ?thesis .
qed

lemma be_bytes_value:
  "\<exists>b0 b1 b2 b3. be_bytes w = [b0, b1, b2, b3]
     \<and> unat w = unat b0 * 2 ^ 24 + unat b1 * 2 ^ 16 + unat b2 * 2 ^ 8 + unat b3"
proof -
  have "unat w < 2 ^ 32" using unsigned_less [of w] by simp
  then have top: "unat w div 16777216 mod 256 = unat w div 16777216"
    by (simp add: less_mult_imp_div_less)
  have low: "unat (ucast w :: byte) = unat w mod 256"
    using unat_byte_of_word [of 0 w] by simp
  have "unat w = unat (ucast (drop_bit 24 w) :: byte) * 2 ^ 24
     + unat (ucast (drop_bit 16 w) :: byte) * 2 ^ 16
     + unat (ucast (drop_bit 8 w) :: byte) * 2 ^ 8
     + unat (ucast w :: byte)"
    unfolding unat_byte_of_word low
    using split_base_256 [of "unat w"] top by simp
  then show ?thesis
    unfolding be_bytes_def by blast
qed

lemma fromfile_tofile: "fromfile (tofile ws) = ws"
  by (induction ws) (simp_all add: tofile_def be_bytes_def be_word_be_bytes)

lemma length_tofile: "length (tofile ws) = 4 * length ws"
  by (induction ws) (simp_all add: tofile_def be_bytes_def)

lemma tofile_item:
  assumes "i < length ws"
  shows "take 4 (drop (4 * i) (tofile ws)) = be_bytes (ws ! i)"
proof -
  have "list_all (\<lambda>row. length row = 4) (map be_bytes ws)"
    by (simp add: list_all_iff be_bytes_def)
  from take_drop_concat_block [OF this, of i] assms show ?thesis
    by (simp add: tofile_def mult.commute)
qed

lemma map_ravel3: "map f (ravel3 a) = ravel3 (map (map (map f)) a)"
  by (simp add: ravel3_def ravel2_def map_concat comp_def)

lemma has_shape3_map: "has_shape3 L R C a \<Longrightarrow> has_shape3 L R C (map (map (map f)) a)"
  by (simp add: has_shape3_def has_shape2_def list_all_iff)

lemma set_ravel3:
  "x \<in> set row \<Longrightarrow> row \<in> set lev \<Longrightarrow> lev \<in> set a \<Longrightarrow> x \<in> set (ravel3 a)"
  by (auto simp: ravel3_def ravel2_def)

lemma fromfile_write_field:
  "fromfile (write_field enc a) = ravel3 (map (map (map enc)) a)"
  by (simp add: write_field_def astype_f4_def fromfile_tofile map_ravel3)

lemma ravel3_single: "ravel3 [a] = ravel2 a"
  by (simp add: ravel3_def)

subsection \<open>The interpolator\<close>

lemma interpolate_level_shape:
  assumes "interpolate_level kern source_coords source_values source_mask XC YC target_mask = Inr out"
  shows "map length out = map length XC" and "map length target_mask = map length XC"
    and "map length YC = map length XC"
proof -
  from assms have
    y: "map length YC = map length XC" and m: "map length target_mask = map length XC"
    and out: "out = map (\<lambda>(xs, ys, ms).
                  map (\<lambda>(x, y, m).
                         interpolate_cell kern
                           (valid_subset source_coords source_values source_mask) (x, y) m)
                      (zip xs (zip ys ms)))
                (zip XC (zip YC target_mask))"
    by (auto simp: interpolate_level_def split: if_splits)
  have ly: "length YC = length XC" using y by (metis length_map)
  have lm: "length target_mask = length XC" using m by (metis length_map)
  have rows_y: "length (YC ! r) = length (XC ! r)" if "r < length XC" for r
    using that y ly by (metis nth_map)
  have rows_m: "length (target_mask ! r) = length (XC ! r)" if "r < length XC" for r
    using that m lm by (metis nth_map)
  show "map length out = map length XC"
    by (rule nth_equalityI) (simp_all add: out ly lm rows_y rows_m)
  show "map length target_mask = map length XC" by (rule m)
  show "map length YC = map length XC" by (rule y)
qed

lemma interpolate_level_nth:
  assumes "interpolate_level kern source_coords source_values source_mask XC YC target_mask = Inr out"
    and "r < length target_mask" and "c < length (target_mask ! r)"
  shows "out ! r ! c =
         interpolate_cell kern (valid_subset source_coords source_values source_mask)
           (XC ! r ! c, YC ! r ! c) (target_mask ! r ! c)"
proof -
  from assms(1) have
    y: "map length YC = map length XC" and m: "map length target_mask = map length XC"
    and out: "out = map (\<lambda>(xs, ys, ms).
                  map (\<lambda>(x, y, m).
                         interpolate_cell kern
                           (valid_subset source_coords source_values source_mask) (x, y) m)
                      (zip xs (zip ys ms)))
                (zip XC (zip YC target_mask))"
    by (auto simp: interpolate_level_def split: if_splits)
  have ly: "length YC = length XC" using y by (metis length_map)
  have lm: "length target_mask = length XC" using m by (metis length_map)
  have r: "r < length XC" using assms(2) lm by simp
  have rows_y: "length (YC ! r) = length (XC ! r)"
    using r y ly by (metis nth_map)
  have rows_m: "length (target_mask ! r) = length (XC ! r)"
    using r m lm by (metis nth_map)
  show ?thesis
    using r assms(3) by (simp add: out ly lm rows_y rows_m)
qed

lemma interpolate_cell_masked: "interpolate_cell kern valid xy 0 = 0"
  by (simp add: interpolate_cell_def)

lemma interpolate_level_masked:
  assumes "interpolate_level kern source_coords source_values source_mask XC YC target_mask = Inr out"
    and "r < length target_mask" and "c < length (target_mask ! r)"
    and "target_mask ! r ! c = 0"
  shows "out ! r ! c = 0"
  using interpolate_level_nth [OF assms(1-3)] assms(4) by (simp add: interpolate_cell_masked)

lemma downscale_3D_points_length:
  "downscale_3D_points kern points values3 mask3 XC YC wet_grid = Inr out
   \<Longrightarrow> length out = length wet_grid"
  unfolding downscale_3D_points_def by (drule mapM_Inr_length) simp

lemma downscale_3D_points_level:
  assumes "downscale_3D_points kern points values3 mask3 XC YC wet_grid = Inr out"
    and "k < length wet_grid"
  shows "k < length values3 \<and> k < length mask3
       \<and> interpolate_level kern points (values3 ! k) (mask3 ! k) XC YC (wet_grid ! k)
           = Inr (out ! k)"
proof -
  from mapM_Inr_nth [OF assms(1) [unfolded downscale_3D_points_def], of k] assms(2)
  have "and_then (py_index values3 (int k)) (\<lambda>level_values.
          and_then (py_index mask3 (int k)) (\<lambda>level_mask.
          interpolate_level kern points level_values level_mask XC YC (wet_grid ! k)))
        = Inr (out ! k)"
    by simp
  then show ?thesis
    by (auto simp: and_then_Inr_iff py_index_def split: if_splits)
qed

subsection \<open>The loop over the timesteps\<close>

lemma assign_slice_same: "length xs = N \<Longrightarrow> assign_slice N xs = Inr xs"
  by (simp add: assign_slice_def)

lemma assign_slice_length: "assign_slice N xs = Inr ys \<Longrightarrow> length ys = N"
  by (auto simp: assign_slice_def split: if_splits)

lemma mapM_same:
  "list_all (\<lambda>x. f x = Inr x) xs \<Longrightarrow> mapM f xs = Inr xs"
  by (induction xs) (simp_all add: and_then_def)

lemma n_columns_shape: "has_shape2 R C a \<Longrightarrow> 0 < R \<Longrightarrow> n_columns a = C"
  by (cases a) (auto simp: has_shape2_def n_columns_def)

lemma store_timestep_same:
  assumes "has_shape2 R C a"
  shows "store_timestep R C a = Inr a"
proof -
  have "mapM (assign_slice C) a = Inr a"
    using assms by (intro mapM_same) (simp add: has_shape2_def list_all_iff assign_slice_same)
  then show ?thesis
    using assms by (simp add: store_timestep_def and_then_def has_shape2_def)
qed

lemma interpolate_timesteps_nth:
  assumes "interpolate_timesteps interp ecco_points ecco_mask XC YC surface_mask exf_grid
           = Inr out"
    and "t < length exf_grid"
  shows "and_then (interp ecco_points (ravel2 (exf_grid ! t)) ecco_mask XC YC surface_mask)
           (store_timestep (length XC) (n_columns XC)) = Inr (out ! t)"
  using mapM_Inr_nth [OF assms(1) [unfolded interpolate_timesteps_def] assms(2)] .

lemma interpolate_timesteps_length:
  "interpolate_timesteps interp ecco_points ecco_mask XC YC surface_mask exf_grid = Inr out
   \<Longrightarrow> length out = length exf_grid"
  unfolding interpolate_timesteps_def by (rule mapM_Inr_length)

lemma convert_units_length: "length (convert_units variable_name g) = length g"
  by (simp add: convert_units_def Let_def)

lemma convert_units_nth:
  "t < length g \<Longrightarrow> convert_units variable_name g ! t = hd (convert_units variable_name [g ! t])"
  by (simp add: convert_units_def Let_def)

subsection \<open>Reading the tiles\<close>

lemma tile_values_length: "tile_values variable_name f N k tile_number = Inr xs \<Longrightarrow> length xs = N"
  by (auto simp: tile_values_def and_then_Inr_iff split: if_splits dest: assign_slice_length)

lemma read_init_grid_rows:
  "read_init_grid variable_name f nlev N tile_list = Inr init_grid
   \<Longrightarrow> length init_grid = (if variable_name = ''ETAN'' then 1 else nlev)"
  unfolding read_init_grid_def by (drule mapM_Inr_length) simp

lemma read_init_grid_tile:
  assumes "read_init_grid variable_name f nlev N tile_list = Inr init_grid"
    and "k < (if variable_name = ''ETAN'' then 1 else nlev)" and "j < length tile_list"
  shows "tile_values variable_name f N k (tile_list ! j)
         = Inr (take N (drop (j * N) (init_grid ! k)))"
proof -
  let ?levels = "[0..<(if variable_name = ''ETAN'' then 1 else nlev)]"
  from mapM_Inr_nth [OF assms(1) [unfolded read_init_grid_def], of k] assms(2)
  have "and_then (mapM (tile_values variable_name f N k) tile_list)
          (\<lambda>parts. Inr (concat parts)) = Inr (init_grid ! k)"
    by simp
  then obtain parts where
    parts: "mapM (tile_values variable_name f N k) tile_list = Inr parts"
    and row: "init_grid ! k = concat parts"
    by (auto simp: and_then_Inr_iff)
  have len: "length parts = length tile_list"
    by (rule mapM_Inr_length [OF parts])
  have blocks: "list_all (\<lambda>part. length part = N) parts"
    by (rule mapM_Inr_all [OF parts]) (rule tile_values_length)
  have "take N (drop (j * N) (concat parts)) = parts ! j"
    using blocks assms(3) len by (intro take_drop_concat_block) simp_all
  then show ?thesis
    using mapM_Inr_nth [OF parts assms(3)] by (simp add: row)
qed

subsection \<open>Boolean indexing\<close>







lemma has_shape2_lengths:
  assumes "map length a = map length b" and "has_shape2 R C b"
  shows "has_shape2 R C a"
proof -
  have "length a = R" using assms by (metis has_shape2_def length_map)
  moreover have "length row = C" if "row \<in> set a" for row
  proof -
    from that have "length row \<in> set (map length b)"
      using assms(1) by (metis imageI set_map)
    then show ?thesis using assms(2) by (auto simp: has_shape2_def list_all_iff)
  qed
  ultimately show ?thesis by (simp add: has_shape2_def list_all_iff)
qed

lemma length_model_grid_mask: "length (model_grid_mask hFac_cell bathy delR) = length delR"
  by (simp add: model_grid_mask_def mask_of_hFac_def create_hFacC_grid_def)

subsection \<open>Shapes of the written arrays\<close>

lemma store_timestep_shape:
  assumes "store_timestep R C a = Inr b"
  shows "has_shape2 R C b"
proof -
  from assms obtain rows where
    rows: "mapM (assign_slice C) a = Inr rows"
    and b: "(if length rows = R then Inr rows
             else if length rows = 1 then Inr (replicate R (hd rows))
             else Inl ValueError) = (Inr b :: py_error + real list list)"
    by (auto simp: store_timestep_def and_then_Inr_iff)
  have all: "list_all (\<lambda>row. length row = C) rows"
    by (rule mapM_Inr_all [OF rows]) (rule assign_slice_length)
  show ?thesis
  proof (cases "length rows = R")
    case True
    with b all show ?thesis by (simp add: has_shape2_def)
  next
    case False
    with b have one: "length rows = 1" and rep: "b = replicate R (hd rows)"
      by (auto split: if_splits)
    from one all have "length (hd rows) = C"
      by (cases rows) simp_all
    then show ?thesis by (simp add: rep has_shape2_def list_all_iff)
  qed
qed

lemma interpolate_timesteps_shape:
  assumes "interpolate_timesteps interp ecco_points ecco_mask XC YC surface_mask exf_grid
           = Inr g"
  shows "has_shape3 (length exf_grid) (length XC) (n_columns XC) g"
proof -
  have "list_all (has_shape2 (length XC) (n_columns XC)) g"
  proof (rule mapM_Inr_all [OF assms [unfolded interpolate_timesteps_def]])
    fix field b
    assume "and_then (interp ecco_points (ravel2 field) ecco_mask XC YC surface_mask)
              (store_timestep (length XC) (n_columns XC)) = Inr b"
    then show "has_shape2 (length XC) (n_columns XC) b"
      by (auto simp: and_then_Inr_iff dest: store_timestep_shape)
  qed
  then show ?thesis
    using interpolate_timesteps_length [OF assms] by (simp add: has_shape3_def)
qed

lemma convert_units_shape:
  "has_shape3 L R C g \<Longrightarrow> has_shape3 L R C (convert_units variable_name g)"
  by (simp add: convert_units_def Let_def has_shape3_map)

lemma forcing_grid_shape:
  assumes "forcing_grid interp variable_name ecco_points ecco_mask XC YC surface_mask exf_grid
           = Inr g"
  shows "has_shape3 (length exf_grid) (length XC) (n_columns XC) g"
  using assms
  by (auto simp: forcing_grid_def and_then_Inr_iff
           intro!: convert_units_shape dest: interpolate_timesteps_shape)

lemma interpolate_variable_shape:
  assumes "interpolate_variable kern variable_name p' init_grid XC YC mask3d = Inr g"
    and "has_shape2 R C XC"
  shows "has_shape3 (length (model_mask variable_name mask3d)) R C g"
proof -
  from assms(1) obtain points where
    run: "downscale_3D_points kern points init_grid (ecco_mask_points p') XC YC
            (model_mask variable_name mask3d) = Inr g"
    by (auto simp: interpolate_variable_def and_then_Inr_iff)
  have len: "length g = length (model_mask variable_name mask3d)"
    by (rule downscale_3D_points_length [OF run])
  have "has_shape2 R C (g ! k)" if "k < length g" for k
  proof -
    from that len have "k < length (model_mask variable_name mask3d)" by simp
    from downscale_3D_points_level [OF run this]
    have "interpolate_level kern points (init_grid ! k) (ecco_mask_points p' ! k) XC YC
            (model_mask variable_name mask3d ! k) = Inr (g ! k)"
      by simp
    from interpolate_level_shape(1) [OF this] assms(2) show ?thesis
      by (rule has_shape2_lengths)
  qed
  then show ?thesis
    by (simp add: has_shape3_def len list_all_length)
qed

lemma write_field_layout:
  assumes "has_shape3 L R C a"
  shows "length (write_field enc a) = 4 * (L * R * C)"
    and "k < L \<Longrightarrow> r < R \<Longrightarrow> c < C \<Longrightarrow>
         \<exists>b0 b1 b2 b3.
            take 4 (drop (4 * ((k * R + r) * C + c)) (write_field enc a)) = [b0, b1, b2, b3]
          \<and> unat (enc (a ! k ! r ! c))
              = unat b0 * 2 ^ 24 + unat b1 * 2 ^ 16 + unat b2 * 2 ^ 8 + unat b3"
proof -
  show "length (write_field enc a) = 4 * (L * R * C)"
    by (simp add: write_field_def astype_f4_def length_tofile length_ravel3 [OF assms])
next
  assume k: "k < L" and r: "r < R" and c: "c < C"
  have idx: "(k * R + r) * C + c < L * R * C"
  proof -
    have "(k * R + r) * C + c < Suc (k * R + r) * C" using c by simp
    also have "\<dots> \<le> (Suc k * R) * C" using r by (intro mult_le_mono1) simp
    also have "\<dots> \<le> (L * R) * C" using k by (intro mult_le_mono1) simp
    finally show ?thesis .
  qed
  have item: "take 4 (drop (4 * ((k * R + r) * C + c)) (write_field enc a))
              = be_bytes (enc (a ! k ! r ! c))"
    using idx tofile_item [of "(k * R + r) * C + c" "map enc (ravel3 a)"]
    by (simp add: write_field_def astype_f4_def length_ravel3 [OF assms]
          nth_ravel3 [OF assms k r c])
  show "\<exists>b0 b1 b2 b3.
            take 4 (drop (4 * ((k * R + r) * C + c)) (write_field enc a)) = [b0, b1, b2, b3]
          \<and> unat (enc (a ! k ! r ! c))
              = unat b0 * 2 ^ 24 + unat b1 * 2 ^ 16 + unat b2 * 2 ^ 8 + unat b3"
    unfolding item by (rule be_bytes_value)
qed

subsection \<open>The float32 product with 0\<close>




section \<open>Properties of the notebooks\<close>

text \<open>
  C1. Masked target cells are zero. Whatever the kernel, a cell of the model grid whose
  mask is 0 holds 0 in the array the interpolation returns: at every level of an
  initial-condition field, and at every timestep of a forcing field (with the model of
  the interpolator as the routine the loop calls).
\<close>

theorem masked_cells_are_zero:
  "(interpolate_variable kern variable_name p' init_grid XC YC mask3d = Inr out
      \<longrightarrow> k < length (model_mask variable_name mask3d)
      \<longrightarrow> r < length (model_mask variable_name mask3d ! k)
      \<longrightarrow> c < length (model_mask variable_name mask3d ! k ! r)
      \<longrightarrow> model_mask variable_name mask3d ! k ! r ! c = 0
      \<longrightarrow> out ! k ! r ! c = 0)
   \<and> (interpolate_timesteps (downscale_2D_points_with_zeros kern) ecco_points ecco_mask
         XC YC surface_mask exf_grid = Inr interpolated_grid
      \<longrightarrow> has_shape2 R C XC \<longrightarrow> t < length exf_grid \<longrightarrow> i < R \<longrightarrow> j < C
      \<longrightarrow> surface_mask ! i ! j = 0
      \<longrightarrow> interpolated_grid ! t ! i ! j = 0)"
proof (intro conjI impI)
  assume run: "interpolate_variable kern variable_name p' init_grid XC YC mask3d = Inr out"
    and k: "k < length (model_mask variable_name mask3d)"
    and r: "r < length (model_mask variable_name mask3d ! k)"
    and c: "c < length (model_mask variable_name mask3d ! k ! r)"
    and closed: "model_mask variable_name mask3d ! k ! r ! c = 0"
  from run obtain points where
    "downscale_3D_points kern points init_grid (ecco_mask_points p') XC YC
       (model_mask variable_name mask3d) = Inr out"
    by (auto simp: interpolate_variable_def and_then_Inr_iff)
  from downscale_3D_points_level [OF this k]
  have "interpolate_level kern points (init_grid ! k) (ecco_mask_points p' ! k) XC YC
          (model_mask variable_name mask3d ! k) = Inr (out ! k)"
    by simp
  from interpolate_level_masked [OF this r c closed] show "out ! k ! r ! c = 0" .
next
  assume run: "interpolate_timesteps (downscale_2D_points_with_zeros kern) ecco_points
                 ecco_mask XC YC surface_mask exf_grid = Inr interpolated_grid"
    and shape: "has_shape2 R C XC" and t: "t < length exf_grid"
    and i: "i < R" and j: "j < C" and closed: "surface_mask ! i ! j = 0"
  from interpolate_timesteps_nth [OF run t] obtain interp_timestep where
    level: "interpolate_level kern ecco_points (ravel2 (exf_grid ! t)) ecco_mask XC YC
              surface_mask = Inr interp_timestep"
    and stored: "store_timestep (length XC) (n_columns XC) interp_timestep
                 = Inr (interpolated_grid ! t)"
    by (auto simp: and_then_Inr_iff downscale_2D_points_with_zeros_def)
  have lens: "map length interp_timestep = map length XC"
    and mask_lens: "map length surface_mask = map length XC"
    using interpolate_level_shape [OF level] by simp_all
  have xc: "length XC = R" "n_columns XC = C"
    using shape i by (simp_all add: has_shape2_def n_columns_shape [OF shape])
  have "has_shape2 R C interp_timestep"
  proof -
    have "length interp_timestep = R" using lens xc(1) by (metis length_map)
    moreover have "length row = C" if "row \<in> set interp_timestep" for row
    proof -
      from that have "length row \<in> set (map length XC)" using lens by (metis imageI set_map)
      then show ?thesis using shape by (auto simp: has_shape2_def list_all_iff)
    qed
    ultimately show ?thesis by (simp add: has_shape2_def list_all_iff)
  qed
  from store_timestep_same [OF this] stored have same: "interpolated_grid ! t = interp_timestep"
    by (simp add: xc)
  have mi: "i < length surface_mask" using mask_lens xc(1) i by (metis length_map)
  have "length (surface_mask ! i) = length (XC ! i)"
    using mask_lens mi by (metis length_map nth_map)
  also have "\<dots> = C" using shape i by (simp add: has_shape2_def list_all_length)
  finally have mj: "j < length (surface_mask ! i)" using j by simp
  from interpolate_level_masked [OF level mi mj closed] show "interpolated_grid ! t ! i ! j = 0"
    by (simp add: same)
qed

theorem masked_cells_are_zero_witness:
  "interpolate_variable (\<lambda>valid xy. Some 9) ''THETA''
     \<lparr>ecco_XC_points = [-1], ecco_YC_points = [30], ecco_mask_points = [[1]],
      ecco_hFacC_points = [[1]], ecco_hFacW_points = [[1]], ecco_hFacS_points = [[1]]\<rparr>
     [[4]] [[-1, -2]] [[30, 30]] [[[1, 0]]] = Inr [[[9, 0]]]
   \<and> model_mask ''THETA'' [[[1, 0 :: real]]] ! 0 ! 0 ! 1 = 0
   \<and> [[[9, 0 :: real]]] ! 0 ! 0 ! 1 = 0
   \<and> interpolate_timesteps (downscale_2D_points_with_zeros (\<lambda>valid xy. Some 9))
        [(0, 0)] [1] [[0, 1]] [[0, 0]] [[1, 0]] [[[5]], [[7]]] = Inr [[[9, 0]], [[9, 0]]]
   \<and> has_shape2 1 2 [[0, 1 :: real]]
   \<and> [[[9, 0]], [[9, 0 :: real]]] ! 1 ! 0 ! 1 = 0"
proof -
  let ?p = "\<lparr>ecco_XC_points = [-1], ecco_YC_points = [30], ecco_mask_points = [[1]],
      ecco_hFacC_points = [[1]], ecco_hFacW_points = [[1]], ecco_hFacS_points = [[1]]\<rparr>"
  have ic: "interpolate_variable (\<lambda>valid xy. Some 9) ''THETA'' ?p
              [[4]] [[-1, -2]] [[30, 30]] [[[1, 0]]] = Inr [[[9, 0]]]"
    by (simp add: interpolate_variable_def column_stack_def downscale_3D_points_def
          model_mask_def py_index_def interpolate_level_def interpolate_cell_def
          valid_subset_def and_then_def)
  have exf: "interpolate_timesteps (downscale_2D_points_with_zeros (\<lambda>valid xy. Some 9))
        [(0, 0)] [1] [[0, 1]] [[0, 0]] [[1, 0]] [[[5]], [[7]]] = Inr [[[9, 0]], [[9, 0]]]"
    by (simp add: interpolate_timesteps_def downscale_2D_points_with_zeros_def
          interpolate_level_def interpolate_cell_def valid_subset_def ravel2_def
          store_timestep_def assign_slice_def n_columns_def and_then_def)
  have shape: "has_shape2 1 2 [[0, 1 :: real]]"
    by (simp add: has_shape2_def)
  have closed: "model_mask ''THETA'' [[[1, 0 :: real]]] ! 0 ! 0 ! 1 = 0"
    by (simp add: model_mask_def)
  from masked_cells_are_zero [of "\<lambda>valid xy. Some 9" "''THETA''" ?p "[[4]]" "[[-1, -2]]"
         "[[30, 30]]" "[[[1, 0]]]" "[[[9, 0]]]" 0 0 1
         "[(0, 0)]" "[1]" "[[1, 0]]" "[[[5]], [[7]]]" "[[[9, 0]], [[9, 0]]]" 1 2 1 0 1]
       ic exf shape closed
  show ?thesis by simp
qed

text \<open>
  C2. Velocity normalization before interpolation: for every level \<open>k\<close> and every source
  point \<open>i\<close>, where the cell fraction (hFacW for UVEL, hFacS for VVEL) is non-zero the
  value is the raw value divided by it, and where it is zero the raw value is left as it
  is. Here \<open>init_grid\<close> holds the raw values after the longitude filter and \<open>out\<close> is what
  goes to the interpolation.
\<close>

theorem velocity_normalization:
  assumes "apply_corrections variable_name nlev p init_grid = Inr out"
    and "k < nlev" and "i < length (init_grid ! k)"
  shows "(variable_name = ''UVEL'' \<longrightarrow>
            out ! k ! i = (if ecco_hFacW_points p ! k ! i \<noteq> 0
                           then init_grid ! k ! i / ecco_hFacW_points p ! k ! i
                           else init_grid ! k ! i))
       \<and> (variable_name = ''VVEL'' \<longrightarrow>
            out ! k ! i = (if ecco_hFacS_points p ! k ! i \<noteq> 0
                           then init_grid ! k ! i / ecco_hFacS_points p ! k ! i
                           else init_grid ! k ! i))"
proof (intro conjI impI)
  assume "variable_name = ''UVEL''"
  with assms(1) have "normalize_levels nlev init_grid (ecco_hFacW_points p) = Inr out"
    by (simp add: apply_corrections_def)
  from normalize_levels_nth [OF this assms(2,3)]
  show "out ! k ! i = (if ecco_hFacW_points p ! k ! i \<noteq> 0
                       then init_grid ! k ! i / ecco_hFacW_points p ! k ! i
                       else init_grid ! k ! i)" .
next
  assume "variable_name = ''VVEL''"
  with assms(1) have "normalize_levels nlev init_grid (ecco_hFacS_points p) = Inr out"
    by (simp add: apply_corrections_def)
  from normalize_levels_nth [OF this assms(2,3)]
  show "out ! k ! i = (if ecco_hFacS_points p ! k ! i \<noteq> 0
                       then init_grid ! k ! i / ecco_hFacS_points p ! k ! i
                       else init_grid ! k ! i)" .
qed

theorem velocity_normalization_witness:
  "apply_corrections ''UVEL'' 1
     \<lparr>ecco_XC_points = [-1, -2], ecco_YC_points = [30, 31], ecco_mask_points = [[1, 0]],
      ecco_hFacC_points = [[1, 0]], ecco_hFacW_points = [[2, 0]], ecco_hFacS_points = [[1, 0]]\<rparr>
     [[6, 5]] = Inr [[3, 5]]
   \<and> [[3, 5 :: real]] ! 0 ! 0 = 6 / 2 \<and> [[3, 5 :: real]] ! 0 ! 1 = 5"
proof -
  let ?p = "\<lparr>ecco_XC_points = [-1, -2], ecco_YC_points = [30, 31], ecco_mask_points = [[1, 0]],
      ecco_hFacC_points = [[1, 0]], ecco_hFacW_points = [[2, 0]], ecco_hFacS_points = [[1, 0]]\<rparr>"
  have run: "apply_corrections ''UVEL'' 1 ?p [[6, 5]] = Inr [[3, 5]]"
    by (simp add: apply_corrections_def normalize_levels_def divide_nonzero_def and_then_def)
  from velocity_normalization [OF run, of 0 0] velocity_normalization [OF run, of 0 1] run
  show ?thesis by simp
qed

text \<open>
  C3. Round trip: a field whose numbers are float32-representable (\<open>dec (enc x) = x\<close>),
  written in C order as 4-byte big-endian values and read back as big-endian float32
  with the shape (levels, rows, cols), is the original array: the values read are the 32
  bits that were written, and their numbers are the original ones. For a field of one
  level (ETAN), reading with the shape (rows, cols) gives that level.
\<close>

theorem binary_round_trip:
  assumes "has_shape3 L R C a"
    and "list_all (\<lambda>x. dec (enc x) = x) (ravel3 a)"
  shows "read_field L R C (write_field enc a) = Inr (map (map (map enc)) a)
       \<and> map (map (map dec)) (map (map (map enc)) a) = a
       \<and> (L = 1 \<longrightarrow> read_surface_field R C (write_field enc a) = Inr (map (map enc) (a ! 0))
                    \<and> map (map dec) (map (map enc) (a ! 0)) = a ! 0)"
proof -
  have bits: "read_field L R C (write_field enc a) = Inr (map (map (map enc)) a)"
    using reshape3_ravel3 [OF has_shape3_map [OF assms(1), of enc]]
    by (simp add: read_field_def fromfile_write_field)
  have same: "dec (enc x) = x" if "x \<in> set row" "row \<in> set lev" "lev \<in> set a" for x row lev
    using assms(2) set_ravel3 [OF that] by (simp add: list_all_iff)
  have numbers: "map (map (map dec)) (map (map (map enc)) a) = a"
    by (auto simp: comp_def same intro!: map_idI)
  have surface: "read_surface_field R C (write_field enc a) = Inr (map (map enc) (a ! 0))
                 \<and> map (map dec) (map (map enc) (a ! 0)) = a ! 0" if "L = 1"
  proof -
    from assms(1) that obtain a0 where a: "a = [a0]" and a0: "has_shape2 R C a0"
      by (cases a) (auto simp: has_shape3_def)
    have "has_shape2 R C (map (map enc) a0)"
      using a0 by (simp add: has_shape2_def list_all_iff)
    from reshape2_ravel2 [OF this]
    have "read_surface_field R C (write_field enc a) = Inr (map (map enc) a0)"
      by (simp add: read_surface_field_def fromfile_write_field a ravel3_single)
    moreover have "map (map dec) (map (map enc) a0) = a0"
      using numbers by (simp add: a)
    ultimately show ?thesis by (simp add: a)
  qed
  from bits numbers surface show ?thesis by blast
qed

theorem binary_round_trip_witness:
  "has_shape3 1 2 2 [[[0, 1], [1, 0 :: real]]]
   \<and> list_all (\<lambda>x. (\<lambda>w :: float32. if w = 0x3F800000 then 1 else 0)
                     ((\<lambda>x :: real. if x = 1 then 0x3F800000 else 0) x) = x)
        (ravel3 [[[0, 1], [1, 0 :: real]]])
   \<and> write_field (\<lambda>x. if x = 1 then 0x3F800000 else 0) [[[0, 1], [1, 0]]]
       = [0, 0, 0, 0, 0x3F, 0x80, 0, 0, 0x3F, 0x80, 0, 0, 0, 0, 0, 0]
   \<and> read_field 1 2 2 [0, 0, 0, 0, 0x3F, 0x80, 0, 0, 0x3F, 0x80, 0, 0, 0, 0, 0, 0]
       = Inr [[[0, 0x3F800000], [0x3F800000, 0]]]
   \<and> read_surface_field 2 2 [0, 0, 0, 0, 0x3F, 0x80, 0, 0, 0x3F, 0x80, 0, 0, 0, 0, 0, 0]
       = Inr [[0, 0x3F800000], [0x3F800000, 0]]"
proof -
  let ?enc = "\<lambda>x :: real. if x = 1 then 0x3F800000 else (0 :: float32)"
  let ?dec = "\<lambda>w :: float32. if w = 0x3F800000 then 1 else (0 :: real)"
  let ?a = "[[[0, 1], [1, 0 :: real]]]"
  have shape: "has_shape3 1 2 2 ?a"
    by (simp add: has_shape3_def has_shape2_def)
  have repr: "list_all (\<lambda>x. ?dec (?enc x) = x) (ravel3 ?a)"
    by (simp add: ravel3_def ravel2_def)
  have written: "write_field ?enc ?a = [0, 0, 0, 0, 0x3F, 0x80, 0, 0, 0x3F, 0x80, 0, 0, 0, 0, 0, 0]"
    by (simp add: write_field_def astype_f4_def ravel3_def ravel2_def tofile_def be_bytes_def)
  from binary_round_trip [OF shape repr] shape repr written show ?thesis
    by simp
qed

text \<open>
  C4. The file format. A written field is flat and headerless (its length is four bytes
  per value and nothing else), the value of level \<open>k\<close>, row \<open>r\<close>, column \<open>c\<close> stands at
  item \<open>(k * R + r) * C + c\<close> (columns vary fastest, then rows, then levels) as four
  bytes, the most significant first. Every file of the two notebooks is such a file: an
  initial-condition file is the written array returned by the interpolation, with the
  levels of the model mask and the rows and columns of the grid; a forcing file is the
  written array of the converted timesteps, with the timesteps of the source and the rows
  and columns of the grid; a zero-wind file is the flat array of the products, item \<open>i\<close>
  at byte \<open>4 * i\<close>.
\<close>

theorem file_layout:
  "(has_shape3 L R C a \<longrightarrow> k < L \<longrightarrow> r < R \<longrightarrow> c < C \<longrightarrow>
      length (write_field enc a) = 4 * (L * R * C)
    \<and> (\<exists>b0 b1 b2 b3.
              take 4 (drop (4 * ((k * R + r) * C + c)) (write_field enc a)) = [b0, b1, b2, b3]
            \<and> unat (enc (a ! k ! r ! c)) = unat b0 * 2 ^ 24 + unat b1 * 2 ^ 16 + unat b2 * 2 ^ 8 + unat b3))
   \<and> (initial_condition_file kern enc variable_name f nlev N tile_list p XC YC mask3d
         = Inr written
       \<longrightarrow> has_shape2 R C XC
       \<longrightarrow> (\<exists>p' init_grid interpolated_grid.
              remove_positive_longitudes p = Inr p'
            \<and> prepare_init_grid variable_name f nlev N tile_list p p' = Inr init_grid
            \<and> interpolate_variable kern variable_name p' init_grid XC YC mask3d
                = Inr interpolated_grid
            \<and> has_shape3 (length (model_mask variable_name mask3d)) R C interpolated_grid
            \<and> written = write_field enc interpolated_grid
            \<and> length written = 4 * (length (model_mask variable_name mask3d) * R * C)
            \<and> (k < length (model_mask variable_name mask3d) \<longrightarrow> r < R \<longrightarrow> c < C \<longrightarrow>
                 (\<exists>b0 b1 b2 b3.
              take 4 (drop (4 * ((k * R + r) * C + c)) written) = [b0, b1, b2, b3]
            \<and> unat (enc (interpolated_grid ! k ! r ! c)) = unat b0 * 2 ^ 24 + unat b1 * 2 ^ 16 + unat b2 * 2 ^ 8 + unat b3))))
   \<and> (remove_positive_longitudes p = Inr q
       \<longrightarrow> prepare_init_grid variable_name f nlev N tile_list p q = Inr prepared
       \<longrightarrow> interpolate_variable kern variable_name q prepared XC YC mask3d = Inr g
       \<longrightarrow> initial_condition_file kern enc variable_name f nlev N tile_list p XC YC mask3d
             = Inr (write_field enc g))
   \<and> (create_forcing_file interp enc variable_name exf_lon exf_lat XC YC surface_mask exf_grid
         = Inr written_exf
       \<longrightarrow> (\<exists>ecco_points interpolated_grid.
              exf_points exf_lon exf_lat = Inr ecco_points
            \<and> forcing_grid interp variable_name ecco_points (exf_mask exf_lon exf_lat)
                  XC YC surface_mask exf_grid = Inr interpolated_grid
            \<and> has_shape3 (length exf_grid) (length XC) (n_columns XC) interpolated_grid
            \<and> written_exf = write_field enc interpolated_grid
            \<and> length written_exf = 4 * (length exf_grid * length XC * n_columns XC)
            \<and> (t < length exf_grid \<longrightarrow> r < length XC \<longrightarrow> c < n_columns XC \<longrightarrow>
                 (\<exists>b0 b1 b2 b3.
              take 4 (drop (4 * ((t * length XC + r) * n_columns XC + c)) written_exf) = [b0, b1, b2, b3]
            \<and> unat (enc (interpolated_grid ! t ! r ! c)) = unat b0 * 2 ^ 24 + unat b1 * 2 ^ 16 + unat b2 * 2 ^ 8 + unat b3))))
   \<and> (exf_points exf_lon exf_lat = Inr points
       \<longrightarrow> forcing_grid interp variable_name points (exf_mask exf_lon exf_lat)
             XC YC surface_mask exf_grid = Inr h
       \<longrightarrow> create_forcing_file interp enc variable_name exf_lon exf_lat XC YC surface_mask
             exf_grid = Inr (write_field enc h))
   \<and> length (zero_wind_file wind_file) = 4 * length (fromfile wind_file)
   \<and> (i < length (fromfile wind_file) \<longrightarrow>
         (\<exists>b0 b1 b2 b3.
              take 4 (drop (4 * (i)) (zero_wind_file wind_file)) = [b0, b1, b2, b3]
            \<and> unat (zero_wind_grid wind_file ! i) = unat b0 * 2 ^ 24 + unat b1 * 2 ^ 16 + unat b2 * 2 ^ 8 + unat b3))"
proof (intro conjI impI)
  assume "has_shape3 L R C a"
  then show "length (write_field enc a) = 4 * (L * R * C)"
    by (rule write_field_layout(1))
next
  assume "has_shape3 L R C a" and "k < L" and "r < R" and "c < C"
  then show "(\<exists>b0 b1 b2 b3.
              take 4 (drop (4 * ((k * R + r) * C + c)) (write_field enc a)) = [b0, b1, b2, b3]
            \<and> unat (enc (a ! k ! r ! c)) = unat b0 * 2 ^ 24 + unat b1 * 2 ^ 16 + unat b2 * 2 ^ 8 + unat b3)"
    by (rule write_field_layout(2))
next
  assume run: "initial_condition_file kern enc variable_name f nlev N tile_list p XC YC mask3d
               = Inr written"
    and shape: "has_shape2 R C XC"
  from run obtain p' init_grid interpolated_grid where
    points: "remove_positive_longitudes p = Inr p'"
    and prepared: "prepare_init_grid variable_name f nlev N tile_list p p' = Inr init_grid"
    and interpolated: "interpolate_variable kern variable_name p' init_grid XC YC mask3d
                       = Inr interpolated_grid"
    and written: "written = write_field enc interpolated_grid"
    by (auto simp: initial_condition_file_def and_then_Inr_iff)
  let ?L = "length (model_mask variable_name mask3d)"
  have grid_shape: "has_shape3 ?L R C interpolated_grid"
    by (rule interpolate_variable_shape [OF interpolated shape])
  have len: "length written = 4 * (?L * R * C)"
    unfolding written by (rule write_field_layout(1) [OF grid_shape])
  have item: "k < ?L \<longrightarrow> r < R \<longrightarrow> c < C \<longrightarrow>
                 (\<exists>b0 b1 b2 b3.
              take 4 (drop (4 * ((k * R + r) * C + c)) written) = [b0, b1, b2, b3]
            \<and> unat (enc (interpolated_grid ! k ! r ! c)) = unat b0 * 2 ^ 24 + unat b1 * 2 ^ 16 + unat b2 * 2 ^ 8 + unat b3)"
    unfolding written using write_field_layout(2) [OF grid_shape, of k r c enc] by blast
  from points prepared interpolated grid_shape written len item
  show "\<exists>p' init_grid interpolated_grid.
              remove_positive_longitudes p = Inr p'
            \<and> prepare_init_grid variable_name f nlev N tile_list p p' = Inr init_grid
            \<and> interpolate_variable kern variable_name p' init_grid XC YC mask3d
                = Inr interpolated_grid
            \<and> has_shape3 (length (model_mask variable_name mask3d)) R C interpolated_grid
            \<and> written = write_field enc interpolated_grid
            \<and> length written = 4 * (length (model_mask variable_name mask3d) * R * C)
            \<and> (k < length (model_mask variable_name mask3d) \<longrightarrow> r < R \<longrightarrow> c < C \<longrightarrow>
                 (\<exists>b0 b1 b2 b3.
              take 4 (drop (4 * ((k * R + r) * C + c)) written) = [b0, b1, b2, b3]
            \<and> unat (enc (interpolated_grid ! k ! r ! c)) = unat b0 * 2 ^ 24 + unat b1 * 2 ^ 16 + unat b2 * 2 ^ 8 + unat b3))"
    by blast
next
  assume "remove_positive_longitudes p = Inr q"
    and "prepare_init_grid variable_name f nlev N tile_list p q = Inr prepared"
    and "interpolate_variable kern variable_name q prepared XC YC mask3d = Inr g"
  then show "initial_condition_file kern enc variable_name f nlev N tile_list p XC YC mask3d
             = Inr (write_field enc g)"
    by (simp add: initial_condition_file_def and_then_def)
next
  assume run: "create_forcing_file interp enc variable_name exf_lon exf_lat XC YC surface_mask
                 exf_grid = Inr written_exf"
  from run obtain ecco_points interpolated_grid where
    points: "exf_points exf_lon exf_lat = Inr ecco_points"
    and interpolated: "forcing_grid interp variable_name ecco_points (exf_mask exf_lon exf_lat)
                         XC YC surface_mask exf_grid = Inr interpolated_grid"
    and written: "written_exf = write_field enc interpolated_grid"
    by (auto simp: create_forcing_file_def forcing_file_def and_then_Inr_iff)
  have grid_shape: "has_shape3 (length exf_grid) (length XC) (n_columns XC) interpolated_grid"
    by (rule forcing_grid_shape [OF interpolated])
  have len: "length written_exf = 4 * (length exf_grid * length XC * n_columns XC)"
    unfolding written by (rule write_field_layout(1) [OF grid_shape])
  have item: "t < length exf_grid \<longrightarrow> r < length XC \<longrightarrow> c < n_columns XC \<longrightarrow>
                 (\<exists>b0 b1 b2 b3.
              take 4 (drop (4 * ((t * length XC + r) * n_columns XC + c)) written_exf) = [b0, b1, b2, b3]
            \<and> unat (enc (interpolated_grid ! t ! r ! c)) = unat b0 * 2 ^ 24 + unat b1 * 2 ^ 16 + unat b2 * 2 ^ 8 + unat b3)"
    unfolding written using write_field_layout(2) [OF grid_shape, of t r c enc] by blast
  from points interpolated grid_shape written len item
  show "\<exists>ecco_points interpolated_grid.
              exf_points exf_lon exf_lat = Inr ecco_points
            \<and> forcing_grid interp variable_name ecco_points (exf_mask exf_lon exf_lat)
                  XC YC surface_mask exf_grid = Inr interpolated_grid
            \<and> has_shape3 (length exf_grid) (length XC) (n_columns XC) interpolated_grid
            \<and> written_exf = write_field enc interpolated_grid
            \<and> length written_exf = 4 * (length exf_grid * length XC * n_columns XC)
            \<and> (t < length exf_grid \<longrightarrow> r < length XC \<longrightarrow> c < n_columns XC \<longrightarrow>
                 (\<exists>b0 b1 b2 b3.
              take 4 (drop (4 * ((t * length XC + r) * n_columns XC + c)) written_exf) = [b0, b1, b2, b3]
            \<and> unat (enc (interpolated_grid ! t ! r ! c)) = unat b0 * 2 ^ 24 + unat b1 * 2 ^ 16 + unat b2 * 2 ^ 8 + unat b3))"
    by blast
next
  assume "exf_points exf_lon exf_lat = Inr points"
    and "forcing_grid interp variable_name points (exf_mask exf_lon exf_lat)
             XC YC surface_mask exf_grid = Inr h"
  then show "create_forcing_file interp enc variable_name exf_lon exf_lat XC YC surface_mask
             exf_grid = Inr (write_field enc h)"
    by (simp add: create_forcing_file_def forcing_file_def and_then_def)
next
  show "length (zero_wind_file wind_file) = 4 * length (fromfile wind_file)"
    by (simp add: zero_wind_file_def zero_wind_grid_def length_tofile)
next
  assume i: "i < length (fromfile wind_file)"
  then have "take 4 (drop (4 * i) (zero_wind_file wind_file))
             = be_bytes (zero_wind_grid wind_file ! i)"
    by (simp add: zero_wind_file_def zero_wind_grid_def tofile_item)
  then show "(\<exists>b0 b1 b2 b3.
              take 4 (drop (4 * (i)) (zero_wind_file wind_file)) = [b0, b1, b2, b3]
            \<and> unat (zero_wind_grid wind_file ! i) = unat b0 * 2 ^ 24 + unat b1 * 2 ^ 16 + unat b2 * 2 ^ 8 + unat b3)"
    using be_bytes_value [of "zero_wind_grid wind_file ! i"] by simp
qed

theorem file_layout_witness:
  "initial_condition_file (\<lambda>valid xy. None) (\<lambda>x. if x = 4 then 0x40800000 else 0) ''THETA''
     \<lparr>etan_grid = [], grid = [[[[[4, 8]]]]], u_grid = [], v_grid = []\<rparr> 1 2 [1]
     \<lparr>ecco_XC_points = [-1, 5], ecco_YC_points = [30, 31], ecco_mask_points = [[1, 1]],
      ecco_hFacC_points = [[1, 1]], ecco_hFacW_points = [[1, 1]], ecco_hFacS_points = [[1, 1]]\<rparr>
     [[-1, -2]] [[30, 30]] [[[1, 0]]]
   = Inr [0x40, 0x80, 0, 0, 0, 0, 0, 0]
   \<and> has_shape2 1 2 [[-1, -2 :: real]]
   \<and> length [0x40, 0x80, 0, 0, 0, 0, 0, 0 :: byte]
       = 4 * (length (model_mask ''THETA'' [[[1, 0 :: real]]]) * 1 * 2)
   \<and> create_forcing_file (downscale_2D_points_with_zeros (\<lambda>valid xy. None))
       (\<lambda>x. if x = 4 then 0x40800000 else 0) ''UWIND'' [0] [0] [[0, 1]] [[0, 0]] [[1, 0]]
       [[[4]], [[4]]]
   = Inr [0x40, 0x80, 0, 0, 0, 0, 0, 0, 0x40, 0x80, 0, 0, 0, 0, 0, 0]
   \<and> length [0x40, 0x80, 0, 0, 0, 0, 0, 0, 0x40, 0x80, 0, 0, 0, 0, 0, 0 :: byte]
       = 4 * (length [[[4]], [[4 :: real]]] * length [[0, 1 :: real]] * n_columns [[0, 1 :: real]])
   \<and> length (zero_wind_file [0x41, 0x20, 0, 0, 0xC0, 0xA0, 0, 0])
       = 4 * length (fromfile [0x41, 0x20, 0, 0, 0xC0, 0xA0, 0, 0])"
proof -
  let ?enc = "\<lambda>x :: real. if x = 4 then 0x40800000 else (0 :: float32)"
  let ?f = "\<lparr>etan_grid = [], grid = [[[[[4, 8 :: real]]]]], u_grid = [], v_grid = []\<rparr>"
  let ?p = "\<lparr>ecco_XC_points = [-1, 5], ecco_YC_points = [30, 31], ecco_mask_points = [[1, 1]],
      ecco_hFacC_points = [[1, 1]], ecco_hFacW_points = [[1, 1]],
      ecco_hFacS_points = [[1, 1 :: real]]\<rparr>"
  have ic: "initial_condition_file (\<lambda>valid xy. None) ?enc ''THETA'' ?f 1 2 [1] ?p
              [[-1, -2]] [[30, 30]] [[[1, 0]]] = Inr [0x40, 0x80, 0, 0, 0, 0, 0, 0]"
    by (simp add: initial_condition_file_def remove_positive_longitudes_def local_indices_def
          bool_index_cols_def bool_index_def prepare_init_grid_def filtered_init_grid_def
          read_init_grid_def tile_values_def tile_level_def py_index_def assign_slice_def
          apply_corrections_def interpolate_variable_def column_stack_def
          downscale_3D_points_def model_mask_def interpolate_level_def interpolate_cell_def
          valid_subset_def write_field_def astype_f4_def ravel3_def ravel2_def tofile_def
          be_bytes_def and_then_def)
  have exf: "create_forcing_file (downscale_2D_points_with_zeros (\<lambda>valid xy. None)) ?enc
               ''UWIND'' [0] [0] [[0, 1]] [[0, 0]] [[1, 0]] [[[4]], [[4]]]
             = Inr [0x40, 0x80, 0, 0, 0, 0, 0, 0, 0x40, 0x80, 0, 0, 0, 0, 0, 0]"
    by (simp add: create_forcing_file_def exf_points_def exf_mask_def meshgrid_def
          column_stack_def forcing_file_def forcing_grid_def convert_units_def
          interpolate_timesteps_def downscale_2D_points_with_zeros_def
          interpolate_level_def interpolate_cell_def valid_subset_def
          store_timestep_def assign_slice_def n_columns_def
          write_field_def astype_f4_def ravel3_def ravel2_def tofile_def
          be_bytes_def and_then_def)
  have shape: "has_shape2 1 2 [[-1, -2 :: real]]"
    by (simp add: has_shape2_def)
  have ic_len: "length [0x40, 0x80, 0, 0, 0, 0, 0, 0 :: byte]
                = 4 * (length (model_mask ''THETA'' [[[1, 0 :: real]]]) * 1 * 2)"
    using file_layout [where k = 0 and r = 0 and c = 0,
            THEN conjunct2, THEN conjunct1, rule_format, OF ic shape]
    by blast
  have exf_len: "length [0x40, 0x80, 0, 0, 0, 0, 0, 0, 0x40, 0x80, 0, 0, 0, 0, 0, 0 :: byte]
       = 4 * (length [[[4]], [[4 :: real]]] * length [[0, 1 :: real]] * n_columns [[0, 1 :: real]])"
    using file_layout [where t = 0 and r = 0 and c = 0,
            THEN conjunct2, THEN conjunct2, THEN conjunct2, THEN conjunct1, rule_format, OF exf]
    by blast
  have zero_len: "length (zero_wind_file [0x41, 0x20, 0, 0, 0xC0, 0xA0, 0, 0])
       = 4 * length (fromfile [0x41, 0x20, 0, 0, 0xC0, 0xA0, 0, 0])"
    by (rule file_layout [THEN conjunct2, THEN conjunct2, THEN conjunct2, THEN conjunct2,
               THEN conjunct2, THEN conjunct1])
  from ic shape ic_len exf exf_len zero_len show ?thesis
    by blast
qed



text \<open>
  C6. The timesteps of a forcing field are independent: the slice of the written array at
  timestep \<open>t\<close> is computed from the source values of timestep \<open>t\<close> alone, by one call of
  the interpolation routine with the same points, source mask, grid and surface mask at
  every timestep, followed by the unit conversion of that slice. Two runs that agree at
  timestep \<open>t\<close> agree on that slice, whatever their other timesteps hold.
\<close>

theorem timesteps_independent:
  assumes "forcing_grid interp variable_name ecco_points ecco_mask XC YC surface_mask exf_grid1
           = Inr out1"
    and "forcing_grid interp variable_name ecco_points ecco_mask XC YC surface_mask exf_grid2
           = Inr out2"
    and "t < length exf_grid1" and "t < length exf_grid2"
    and "exf_grid1 ! t = exf_grid2 ! t"
  shows "out1 ! t = out2 ! t
       \<and> (\<exists>interp_timestep stored.
            interp ecco_points (ravel2 (exf_grid1 ! t)) ecco_mask XC YC surface_mask
              = Inr interp_timestep
          \<and> store_timestep (length XC) (n_columns XC) interp_timestep = Inr stored
          \<and> out1 ! t = hd (convert_units variable_name [stored]))"
proof -
  from assms(1) obtain g1 where
    g1: "interpolate_timesteps interp ecco_points ecco_mask XC YC surface_mask exf_grid1 = Inr g1"
    and out1: "out1 = convert_units variable_name g1"
    by (auto simp: forcing_grid_def and_then_Inr_iff)
  from assms(2) obtain g2 where
    g2: "interpolate_timesteps interp ecco_points ecco_mask XC YC surface_mask exf_grid2 = Inr g2"
    and out2: "out2 = convert_units variable_name g2"
    by (auto simp: forcing_grid_def and_then_Inr_iff)
  have t1: "t < length g1" using interpolate_timesteps_length [OF g1] assms(3) by simp
  have t2: "t < length g2" using interpolate_timesteps_length [OF g2] assms(4) by simp
  from interpolate_timesteps_nth [OF g1 assms(3)] obtain interp_timestep where
    call: "interp ecco_points (ravel2 (exf_grid1 ! t)) ecco_mask XC YC surface_mask
           = Inr interp_timestep"
    and stored: "store_timestep (length XC) (n_columns XC) interp_timestep = Inr (g1 ! t)"
    by (auto simp: and_then_Inr_iff)
  have "Inr (g1 ! t) = (Inr (g2 ! t) :: py_error + real list list)"
    using interpolate_timesteps_nth [OF g1 assms(3)] interpolate_timesteps_nth [OF g2 assms(4)]
    by (simp add: assms(5))
  then have same: "g1 ! t = g2 ! t" by simp
  have "out1 ! t = out2 ! t"
    by (simp add: out1 out2 convert_units_nth [OF t1] convert_units_nth [OF t2] same)
  moreover have "out1 ! t = hd (convert_units variable_name [g1 ! t])"
    by (simp add: out1 convert_units_nth [OF t1])
  ultimately show ?thesis using call stored by blast
qed

theorem timesteps_independent_witness:
  "forcing_grid (downscale_2D_points_with_zeros (\<lambda>valid xy. None)) ''ATEMP''
     [(0, 0)] [1] [[0, 1]] [[0, 0]] [[1, 0]] [[[5]], [[7]]]
     = Inr [[[5 + 273.15, 273.15]], [[7 + 273.15, 273.15]]]
   \<and> forcing_grid (downscale_2D_points_with_zeros (\<lambda>valid xy. None)) ''ATEMP''
     [(0, 0)] [1] [[0, 1]] [[0, 0]] [[1, 0]] [[[9]], [[7]], [[1]]]
     = Inr [[[9 + 273.15, 273.15]], [[7 + 273.15, 273.15]], [[1 + 273.15, 273.15]]]
   \<and> [[[5 + 273.15, 273.15]], [[7 + 273.15, 273.15 :: real]]] ! 1
     = [[[9 + 273.15, 273.15]], [[7 + 273.15, 273.15]], [[1 + 273.15, 273.15]]] ! 1"
proof -
  have run1: "forcing_grid (downscale_2D_points_with_zeros (\<lambda>valid xy. None)) ''ATEMP''
     [(0, 0)] [1] [[0, 1]] [[0, 0]] [[1, 0]] [[[5]], [[7]]]
     = Inr [[[5 + 273.15, 273.15]], [[7 + 273.15, 273.15]]]"
    by (simp add: forcing_grid_def convert_units_def
          interpolate_timesteps_def downscale_2D_points_with_zeros_def
          interpolate_level_def interpolate_cell_def valid_subset_def ravel2_def
          store_timestep_def assign_slice_def n_columns_def and_then_def)
  have run2: "forcing_grid (downscale_2D_points_with_zeros (\<lambda>valid xy. None)) ''ATEMP''
     [(0, 0)] [1] [[0, 1]] [[0, 0]] [[1, 0]] [[[9]], [[7]], [[1]]]
     = Inr [[[9 + 273.15, 273.15]], [[7 + 273.15, 273.15]], [[1 + 273.15, 273.15]]]"
    by (simp add: forcing_grid_def convert_units_def
          interpolate_timesteps_def downscale_2D_points_with_zeros_def
          interpolate_level_def interpolate_cell_def valid_subset_def ravel2_def
          store_timestep_def assign_slice_def n_columns_def and_then_def)
  from timesteps_independent [OF run1 run2, of 1] run1 run2 show ?thesis
    by simp
qed

text \<open>
  C7. The vertical levels. An interpolated field other than ETAN has as many levels as
  \<open>delR\<close>, the vertical discretization the mask of the model grid is built from, and
  level \<open>k\<close> of the field is interpolated against level \<open>k\<close> of that mask. ETAN has exactly
  one level, interpolated against the surface level of the mask alone, and its file is
  the flat array of that one level: read with the shape (rows, cols) of the grid, it is
  that level.
\<close>

theorem vertical_levels:
  assumes "interpolate_variable kern variable_name p' init_grid XC YC
             (model_grid_mask hFac_cell bathy delR) = Inr interpolated_grid"
  shows "(variable_name \<noteq> ''ETAN'' \<longrightarrow> length interpolated_grid = length delR)
       \<and> (k < length interpolated_grid \<longrightarrow>
            (\<exists>points. interpolate_level kern points (init_grid ! k) (ecco_mask_points p' ! k)
                        XC YC (model_grid_mask hFac_cell bathy delR ! k)
                      = Inr (interpolated_grid ! k)))
       \<and> (variable_name = ''ETAN'' \<and> delR \<noteq> [] \<longrightarrow>
            length interpolated_grid = 1
          \<and> model_mask variable_name (model_grid_mask hFac_cell bathy delR)
              = [model_grid_mask hFac_cell bathy delR ! 0]
          \<and> write_field enc interpolated_grid
              = tofile (astype_f4 enc (ravel2 (interpolated_grid ! 0)))
          \<and> (has_shape2 R C XC \<longrightarrow>
               read_surface_field R C (write_field enc interpolated_grid)
                 = Inr (map (map enc) (interpolated_grid ! 0))))"
proof -
  let ?mask = "model_grid_mask hFac_cell bathy delR"
  from assms obtain points where
    run: "downscale_3D_points kern points init_grid (ecco_mask_points p') XC YC
            (model_mask variable_name ?mask) = Inr interpolated_grid"
    by (auto simp: interpolate_variable_def and_then_Inr_iff)
  have len: "length interpolated_grid = length (model_mask variable_name ?mask)"
    by (rule downscale_3D_points_length [OF run])
  have count: "length interpolated_grid = length delR" if "variable_name \<noteq> ''ETAN''"
    using that len by (simp add: model_mask_def length_model_grid_mask)
  have level: "\<exists>points. interpolate_level kern points (init_grid ! k) (ecco_mask_points p' ! k)
                          XC YC (?mask ! k) = Inr (interpolated_grid ! k)"
    if "k < length interpolated_grid"
  proof -
    from that len have k: "k < length (model_mask variable_name ?mask)" by simp
    then have "model_mask variable_name ?mask ! k = ?mask ! k"
      by (simp add: model_mask_def split: if_splits)
    with downscale_3D_points_level [OF run k] show ?thesis by auto
  qed
  have surface: "length interpolated_grid = 1
          \<and> model_mask variable_name ?mask = [?mask ! 0]
          \<and> write_field enc interpolated_grid
              = tofile (astype_f4 enc (ravel2 (interpolated_grid ! 0)))
          \<and> (has_shape2 R C XC \<longrightarrow>
               read_surface_field R C (write_field enc interpolated_grid)
                 = Inr (map (map enc) (interpolated_grid ! 0)))"
    if etan: "variable_name = ''ETAN''" and levels: "delR \<noteq> []"
  proof -
    have nonempty: "?mask \<noteq> []"
      using levels length_model_grid_mask [of hFac_cell bathy delR] by auto
    then have one_mask: "model_mask variable_name ?mask = [?mask ! 0]"
      by (cases ?mask) (simp_all add: model_mask_def etan)
    with len have one: "length interpolated_grid = 1" by simp
    then obtain level0 where grid: "interpolated_grid = [level0]"
      by (cases interpolated_grid) simp_all
    have flat: "write_field enc interpolated_grid
                = tofile (astype_f4 enc (ravel2 (interpolated_grid ! 0)))"
      by (simp add: write_field_def grid ravel3_single)
    have reread: "read_surface_field R C (write_field enc interpolated_grid)
                = Inr (map (map enc) (interpolated_grid ! 0))" if shape: "has_shape2 R C XC"
    proof -
      from downscale_3D_points_level [OF run, of 0] one_mask
      have "interpolate_level kern points (init_grid ! 0) (ecco_mask_points p' ! 0) XC YC
              (?mask ! 0) = Inr (interpolated_grid ! 0)"
        by simp
      from interpolate_level_shape(1) [OF this]
      have "has_shape2 R C level0"
        using shape by (intro has_shape2_lengths [of level0 XC]) (simp_all add: grid)
      then have "has_shape2 R C (map (map enc) level0)"
        by (simp add: has_shape2_def list_all_iff)
      from reshape2_ravel2 [OF this] show ?thesis
        by (simp add: read_surface_field_def fromfile_write_field grid ravel3_single
              ravel2_def)
    qed
    from one one_mask flat reread show ?thesis by blast
  qed
  from count level surface show ?thesis by blast
qed

theorem vertical_levels_witness:
  "interpolate_variable (\<lambda>valid xy. None) ''THETA''
     \<lparr>ecco_XC_points = [-1], ecco_YC_points = [30], ecco_mask_points = [[1], [1]],
      ecco_hFacC_points = [[1], [1]], ecco_hFacW_points = [[1], [1]],
      ecco_hFacS_points = [[1], [1]]\<rparr>
     [[4], [6]] [[-1, -2]] [[30, 30]]
     (model_grid_mask (\<lambda>d delR k. if d + sum_list (take k delR) < 0 then 0.5 else 0)
        [[-15, 0]] [10, 10])
   = Inr [[[4, 0]], [[6, 0]]]
   \<and> length [[[4, 0]], [[6, 0 :: real]]] = length [10, 10 :: real]
   \<and> interpolate_variable (\<lambda>valid xy. None) ''ETAN''
     \<lparr>ecco_XC_points = [-1], ecco_YC_points = [30], ecco_mask_points = [[1], [1]],
      ecco_hFacC_points = [[1], [1]], ecco_hFacW_points = [[1], [1]],
      ecco_hFacS_points = [[1], [1]]\<rparr>
     [[4]] [[-1, -2]] [[30, 30]]
     (model_grid_mask (\<lambda>d delR k. if d + sum_list (take k delR) < 0 then 0.5 else 0)
        [[-15, 0]] [10, 10])
   = Inr [[[4, 0]]]
   \<and> has_shape2 1 2 [[-1, -2 :: real]]
   \<and> read_surface_field 1 2 (write_field (\<lambda>x. if x = 4 then 0x40800000 else 0) [[[4, 0]]])
       = Inr [[0x40800000, 0]]"
proof -
  let ?p = "\<lparr>ecco_XC_points = [-1], ecco_YC_points = [30], ecco_mask_points = [[1], [1]],
      ecco_hFacC_points = [[1], [1]], ecco_hFacW_points = [[1], [1]],
      ecco_hFacS_points = [[1], [1 :: real]]\<rparr>"
  let ?cell = "\<lambda>(d :: real) (delR :: real list) (k :: nat).
                 if d + sum_list (take k delR) < 0 then 0.5 else (0 :: real)"
  have mask: "model_grid_mask ?cell [[-15, 0]] [10, 10] = [[[1, 0]], [[1, 0]]]"
    by (simp add: model_grid_mask_def mask_of_hFac_def create_hFacC_grid_def upt_rec)
  have theta: "interpolate_variable (\<lambda>valid xy. None) ''THETA'' ?p
                 [[4], [6]] [[-1, -2]] [[30, 30]] (model_grid_mask ?cell [[-15, 0]] [10, 10])
               = Inr [[[4, 0]], [[6, 0]]]"
    by (simp add: mask interpolate_variable_def column_stack_def downscale_3D_points_def
          model_mask_def py_index_def interpolate_level_def interpolate_cell_def
          valid_subset_def and_then_def upt_rec)
  have etan: "interpolate_variable (\<lambda>valid xy. None) ''ETAN'' ?p
                 [[4]] [[-1, -2]] [[30, 30]] (model_grid_mask ?cell [[-15, 0]] [10, 10])
               = Inr [[[4, 0]]]"
    by (simp add: mask interpolate_variable_def column_stack_def downscale_3D_points_def
          model_mask_def py_index_def interpolate_level_def interpolate_cell_def
          valid_subset_def and_then_def)
  have shape: "has_shape2 1 2 [[-1, -2 :: real]]"
    by (simp add: has_shape2_def)
  have levels: "[10, 10 :: real] \<noteq> []" by simp
  have count: "length [[[4, 0]], [[6, 0 :: real]]] = length [10, 10 :: real]"
    using vertical_levels [OF theta, of 0 "\<lambda>x. 0" 1 2] by simp
  have "read_surface_field 1 2 (write_field (\<lambda>x. if x = 4 then 0x40800000 else 0) [[[4, 0]]])
        = Inr (map (map (\<lambda>x :: real. if x = 4 then 0x40800000 else 0)) ([[[4, 0]]] ! 0))"
    using vertical_levels [OF etan, of 0 "\<lambda>x. if x = 4 then 0x40800000 else 0" 1 2]
          shape levels
    by blast
  with count theta etan shape show ?thesis by simp
qed

text \<open>
  C8. The tile correction of the velocity components. In row \<open>k\<close> of \<open>init_grid\<close>, the
  block of the \<open>j\<close>-th tile of \<open>tile_list\<close> (the columns \<open>j * N\<close> to \<open>j * N + N\<close>) is, for a
  tile numbered below 7, the tile of \<open>u_grid\<close> (UVELMASS) for UVEL and the tile of \<open>v_grid\<close>
  (VVELMASS) for VVEL, as they are; for a tile numbered 7 or above it is the tile of
  \<open>v_grid\<close> for UVEL and the tile of \<open>u_grid\<close> multiplied by -1 for VVEL.
\<close>

theorem tile_rotation:
  assumes "read_init_grid variable_name f nlev N tile_list = Inr init_grid"
    and "k < nlev" and "j < length tile_list"
  shows "(variable_name = ''UVEL'' \<and> tile_list ! j < 7 \<longrightarrow>
            (\<exists>u. tile_level (u_grid f) k (tile_list ! j) = Inr u
               \<and> assign_slice N u = Inr (take N (drop (j * N) (init_grid ! k)))))
       \<and> (variable_name = ''UVEL'' \<and> 7 \<le> tile_list ! j \<longrightarrow>
            (\<exists>v. tile_level (v_grid f) k (tile_list ! j) = Inr v
               \<and> assign_slice N v = Inr (take N (drop (j * N) (init_grid ! k)))))
       \<and> (variable_name = ''VVEL'' \<and> tile_list ! j < 7 \<longrightarrow>
            (\<exists>v. tile_level (v_grid f) k (tile_list ! j) = Inr v
               \<and> assign_slice N v = Inr (take N (drop (j * N) (init_grid ! k)))))
       \<and> (variable_name = ''VVEL'' \<and> 7 \<le> tile_list ! j \<longrightarrow>
            (\<exists>u. tile_level (u_grid f) k (tile_list ! j) = Inr u
               \<and> assign_slice N (map (\<lambda>x. -1 * x) u)
                   = Inr (take N (drop (j * N) (init_grid ! k)))))"
proof -
  have tile: "tile_values variable_name f N k (tile_list ! j)
              = Inr (take N (drop (j * N) (init_grid ! k)))"
    if "variable_name \<noteq> ''ETAN''"
    using read_init_grid_tile [OF assms(1) _ assms(3), of k] assms(2) that by simp
  show ?thesis
  proof (intro conjI impI; elim conjE)
    assume v: "variable_name = ''UVEL''" and t: "tile_list ! j < 7"
    from tile v t show "\<exists>u. tile_level (u_grid f) k (tile_list ! j) = Inr u
               \<and> assign_slice N u = Inr (take N (drop (j * N) (init_grid ! k)))"
      by (simp add: tile_values_def and_then_Inr_iff)
  next
    assume v: "variable_name = ''UVEL''" and t: "7 \<le> tile_list ! j"
    from tile v t show "\<exists>v. tile_level (v_grid f) k (tile_list ! j) = Inr v
               \<and> assign_slice N v = Inr (take N (drop (j * N) (init_grid ! k)))"
      by (simp add: tile_values_def and_then_Inr_iff)
  next
    assume v: "variable_name = ''VVEL''" and t: "tile_list ! j < 7"
    from tile v t show "\<exists>v. tile_level (v_grid f) k (tile_list ! j) = Inr v
               \<and> assign_slice N v = Inr (take N (drop (j * N) (init_grid ! k)))"
      by (simp add: tile_values_def and_then_Inr_iff)
  next
    assume v: "variable_name = ''VVEL''" and t: "7 \<le> tile_list ! j"
    have minus: "(*) (- 1 :: real) = uminus" by (rule ext) simp
    from tile v t show "\<exists>u. tile_level (u_grid f) k (tile_list ! j) = Inr u
               \<and> assign_slice N (map (\<lambda>x. -1 * x) u)
                   = Inr (take N (drop (j * N) (init_grid ! k)))"
      by (simp add: tile_values_def and_then_Inr_iff minus)
  qed
qed

theorem tile_rotation_witness:
  "read_init_grid ''UVEL''
     \<lparr>etan_grid = [], grid = [],
      u_grid = [[[[[1, 1.5]], [[2, 2.5]], [[3, 3.5]], [[4, 4.5]],
                  [[5, 5.5]], [[6, 6.5]], [[7, 7.5]], [[8, 8.5]]]]],
      v_grid = [[[[[11, 11.5]], [[12, 12.5]], [[13, 13.5]], [[14, 14.5]],
                  [[15, 15.5]], [[16, 16.5]], [[17, 17.5]], [[18, 18.5]]]]]\<rparr>
     1 2 [1, 8] = Inr [[1, 1.5, 18, 18.5]]
   \<and> read_init_grid ''VVEL''
     \<lparr>etan_grid = [], grid = [],
      u_grid = [[[[[1, 1.5]], [[2, 2.5]], [[3, 3.5]], [[4, 4.5]],
                  [[5, 5.5]], [[6, 6.5]], [[7, 7.5]], [[8, 8.5]]]]],
      v_grid = [[[[[11, 11.5]], [[12, 12.5]], [[13, 13.5]], [[14, 14.5]],
                  [[15, 15.5]], [[16, 16.5]], [[17, 17.5]], [[18, 18.5]]]]]\<rparr>
     1 2 [1, 8] = Inr [[11, 11.5, -8, -8.5]]
   \<and> (\<exists>v. tile_level [[[[[11, 11.5]], [[12, 12.5]], [[13, 13.5]], [[14, 14.5]],
                  [[15, 15.5]], [[16, 16.5]], [[17, 17.5]], [[18, 18.5]]]]] 0 8 = Inr v
          \<and> assign_slice 2 v = Inr (take 2 (drop (1 * 2) [1, 1.5, 18, 18.5])))
   \<and> (\<exists>u. tile_level [[[[[1, 1.5]], [[2, 2.5]], [[3, 3.5]], [[4, 4.5]],
                  [[5, 5.5]], [[6, 6.5]], [[7, 7.5]], [[8, 8.5]]]]] 0 8 = Inr u
          \<and> assign_slice 2 (map (\<lambda>x. -1 * x) u)
              = Inr (take 2 (drop (1 * 2) [11, 11.5, -8, -8.5])))"
proof -
  let ?f = "\<lparr>etan_grid = [], grid = [],
      u_grid = [[[[[1, 1.5]], [[2, 2.5]], [[3, 3.5]], [[4, 4.5]],
                  [[5, 5.5]], [[6, 6.5]], [[7, 7.5]], [[8, 8.5 :: real]]]]],
      v_grid = [[[[[11, 11.5]], [[12, 12.5]], [[13, 13.5]], [[14, 14.5]],
                  [[15, 15.5]], [[16, 16.5]], [[17, 17.5]], [[18, 18.5]]]]]\<rparr>"
  have u: "read_init_grid ''UVEL'' ?f 1 2 [1, 8] = Inr [[1, 1.5, 18, 18.5]]"
    by (simp add: read_init_grid_def tile_values_def tile_level_def py_index_def
          assign_slice_def ravel2_def and_then_def)
  have v: "read_init_grid ''VVEL'' ?f 1 2 [1, 8] = Inr [[11, 11.5, -8, -8.5]]"
    by (simp add: read_init_grid_def tile_values_def tile_level_def py_index_def
          assign_slice_def ravel2_def and_then_def)
  from tile_rotation [OF u, of 0 1] tile_rotation [OF v, of 0 1] u v show ?thesis
    by simp
qed

text \<open>
  C9. The unit conversions of the forcing fields stand between the interpolation and the
  file and act on every cell of every timestep alike: 273.15 is added for ATEMP, the
  value is multiplied by -1 for SWDOWN and LWDOWN, and every other variable is written
  as interpolated.
\<close>

theorem unit_conversions:
  assumes "interpolate_timesteps interp ecco_points ecco_mask XC YC surface_mask exf_grid
           = Inr interpolated_grid"
    and "t < length interpolated_grid" and "r < length (interpolated_grid ! t)"
    and "c < length (interpolated_grid ! t ! r)"
  shows "forcing_file interp enc variable_name ecco_points ecco_mask XC YC surface_mask exf_grid
           = Inr (write_field enc (convert_units variable_name interpolated_grid))
       \<and> (variable_name = ''ATEMP'' \<longrightarrow>
            convert_units variable_name interpolated_grid ! t ! r ! c
              = interpolated_grid ! t ! r ! c + 273.15)
       \<and> (variable_name = ''SWDOWN'' \<or> variable_name = ''LWDOWN'' \<longrightarrow>
            convert_units variable_name interpolated_grid ! t ! r ! c
              = interpolated_grid ! t ! r ! c * -1)
       \<and> (variable_name \<noteq> ''ATEMP'' \<and> variable_name \<noteq> ''SWDOWN'' \<and> variable_name \<noteq> ''LWDOWN'' \<longrightarrow>
            convert_units variable_name interpolated_grid = interpolated_grid)"
proof -
  have written: "forcing_file interp enc variable_name ecco_points ecco_mask XC YC surface_mask
                   exf_grid
                 = Inr (write_field enc (convert_units variable_name interpolated_grid))"
    using assms(1) by (simp add: forcing_file_def forcing_grid_def and_then_def)
  have atemp: "convert_units ''ATEMP'' interpolated_grid ! t ! r ! c
               = interpolated_grid ! t ! r ! c + 273.15"
    using assms(2-4) by (simp add: convert_units_def)
  have sw: "convert_units ''SWDOWN'' interpolated_grid ! t ! r ! c
            = interpolated_grid ! t ! r ! c * -1"
    using assms(2-4) by (simp add: convert_units_def)
  have lw: "convert_units ''LWDOWN'' interpolated_grid ! t ! r ! c
            = interpolated_grid ! t ! r ! c * -1"
    using assms(2-4) by (simp add: convert_units_def)
  have other: "convert_units variable_name interpolated_grid = interpolated_grid"
    if "variable_name \<noteq> ''ATEMP''" "variable_name \<noteq> ''SWDOWN''" "variable_name \<noteq> ''LWDOWN''"
    using that by (simp add: convert_units_def)
  from written atemp sw lw other show ?thesis by blast
qed

theorem unit_conversions_witness:
  "interpolate_timesteps (downscale_2D_points_with_zeros (\<lambda>valid xy. None))
     [(0, 0)] [1] [[0, 1]] [[0, 0]] [[1, 0]] [[[5]], [[7]]] = Inr [[[5, 0]], [[7, 0]]]
   \<and> convert_units ''ATEMP'' [[[5, 0]], [[7, 0]]] ! 1 ! 0 ! 0 = 7 + 273.15
   \<and> convert_units ''ATEMP'' [[[5, 0]], [[7, 0]]] ! 1 ! 0 ! 1 = 273.15
   \<and> convert_units ''SWDOWN'' [[[5, 0]], [[7, 0]]] ! 1 ! 0 ! 0 = - 7
   \<and> convert_units ''UWIND'' [[[5, 0]], [[7, 0]]] = [[[5, 0]], [[7, 0]]]"
proof -
  have run: "interpolate_timesteps (downscale_2D_points_with_zeros (\<lambda>valid xy. None))
     [(0, 0)] [1] [[0, 1]] [[0, 0]] [[1, 0]] [[[5]], [[7]]] = Inr [[[5, 0]], [[7, 0]]]"
    by (simp add: interpolate_timesteps_def downscale_2D_points_with_zeros_def
          interpolate_level_def interpolate_cell_def valid_subset_def ravel2_def
          store_timestep_def assign_slice_def n_columns_def and_then_def)
  from unit_conversions [OF run, of 1 0 0 "\<lambda>x. 0" "''ATEMP''"]
       unit_conversions [OF run, of 1 0 1 "\<lambda>x. 0" "''ATEMP''"]
       unit_conversions [OF run, of 1 0 0 "\<lambda>x. 0" "''SWDOWN''"]
       unit_conversions [OF run, of 1 0 0 "\<lambda>x. 0" "''UWIND''"] run
  show ?thesis by simp
qed




end
